theory Spec2Isabelle
  imports Complex_Main "HOL-Library.Sublist" "HOL-Library.Multiset"
begin

section \<open>Strings and numbers of the source\<close>

text \<open>
  The matcher (class \<open>AddressMatcher\<close>) is TypeScript.  A JavaScript string is a sequence
  of UTF-16 code units; \<open>length\<close>, \<open>===\<close>, \<open>includes\<close>, \<open>startsWith\<close> and a regular
  expression without the \<open>u\<close> flag all work on code units.  A string is modelled as
  the list of its code units, each a natural number.  Every character that the source
  names is in the Basic Multilingual Plane, so it is one code unit.

  A JavaScript number is a double.  Scores are modelled as exact rationals: the source
  only adds, multiplies and divides small constants and string lengths.  A sum that the
  source rounds can differ from the rational in the last place, which shows only where
  two scores tie or a score sits on a confidence bound; the statements below evaluate
  neither a band nor a tie at such a sum.
\<close>

type_synonym jsstring = "nat list"

text \<open>\<open>!s\<close> on a string: only the empty string is falsy.\<close>

abbreviation truthy :: "jsstring \<Rightarrow> bool" where
  "truthy s \<equiv> s \<noteq> []"

text \<open>\<open>s.includes(t)\<close>, \<open>s.startsWith(t)\<close> and a match of \<open>/t$/\<close> against \<open>s\<close>.\<close>

definition includes_js :: "jsstring \<Rightarrow> jsstring \<Rightarrow> bool" where
  "includes_js s t = sublist t s"

definition startsWith :: "jsstring \<Rightarrow> jsstring \<Rightarrow> bool" where
  "startsWith s t = prefix t s"

definition endsWith :: "jsstring \<Rightarrow> jsstring \<Rightarrow> bool" where
  "endsWith s t = suffix t s"

text \<open>
  \<open>s.replace(/t$/, '')\<close> for a literal \<open>t\<close>: without the \<open>m\<close> flag \<open>$\<close> matches at the
  end of the input only, so the call removes \<open>t\<close> when \<open>s\<close> ends with it and returns
  \<open>s\<close> otherwise.
\<close>

definition replace_end :: "jsstring \<Rightarrow> jsstring \<Rightarrow> jsstring" where
  "replace_end t s = (if endsWith s t then take (length s - length t) s else s)"

text \<open>
  \<open>String.prototype.trim\<close> removes the WhiteSpace and LineTerminator code units of
  ECMAScript from both ends.
\<close>

definition is_space :: "nat \<Rightarrow> bool" where
  "is_space c = (c \<in> {9, 10, 11, 12, 13, 32, 160, 5760, 8192, 8193, 8194, 8195, 8196, 8197,
                       8198, 8199, 8200, 8201, 8202, 8232, 8233, 8239, 8287, 12288, 65279})"

definition trim :: "jsstring \<Rightarrow> jsstring" where
  "trim s = rev (dropWhile is_space (rev (dropWhile is_space s)))"

section \<open>Name normalizer\<close>

text \<open>
  The suffixes of \<open>normalizeName\<close>, in the order of its chain of \<open>replace\<close> calls.
  The last nine are U+81EA U+6CBB U+533A, U+81EA U+6CBB U+5DDE, U+5730 U+533A, and the
  single characters U+7701 (province), U+5E02 (city), U+533A (district), U+53BF (county)
  and U+9547 (town).
\<close>

definition normalize_suffixes :: "jsstring list" where
  "normalize_suffixes =
    [[24067, 20381, 26063, 33495, 26063, 33258, 27835, 24030],
     [33495, 26063, 20375, 26063, 33258, 27835, 24030],
     [32500, 21566, 23572, 33258, 27835, 21306],
     [22238, 26063, 33258, 27835, 21306],
     [22766, 26063, 33258, 27835, 21306],
     [34255, 26063, 33258, 27835, 24030],
     [24413, 26063, 33258, 27835, 24030],
     [26397, 40092, 26063, 33258, 27835, 24030],
     [33945, 21476, 26063, 33258, 27835, 24030],
     [21704, 33832, 20811, 26063, 33258, 27835, 24030],
     [20643, 26063, 26223, 39047, 26063, 33258, 27835, 24030],
     [21704, 23612, 26063, 24413, 26063, 33258, 27835, 24030],
     [29305, 21035, 34892, 25919, 21306],
     [33258, 27835, 21306],
     [33258, 27835, 24030],
     [22320, 21306],
     [30465],
     [24066],
     [21306],
     [21439],
     [38215]]"

text \<open>
  \<open>normalizeName\<close>: the empty string is returned at once; otherwise each \<open>replace\<close> is
  applied once, in order, to the result of the one before, and the result is trimmed.
\<close>

definition normalizeName :: "jsstring \<Rightarrow> jsstring" where
  "normalizeName name =
     (if \<not> truthy name then []
      else trim (foldl (\<lambda>s t. replace_end t s) name normalize_suffixes))"

section \<open>Similarity scorer\<close>

text \<open>
  \<open>levenshteinDistance\<close> fills the table \<open>dp\<close> row by row.  \<open>lev_row c str2 prev left\<close>
  computes the cells \<open>dp[i][j..]\<close> of the row of character \<open>c = str1[i-1]\<close> from the
  cells \<open>prev = dp[i-1][j-1..]\<close> of the row above and \<open>left = dp[i][j-1]\<close>.
\<close>

fun lev_row :: "nat \<Rightarrow> jsstring \<Rightarrow> nat list \<Rightarrow> nat \<Rightarrow> nat list" where
  "lev_row c (d # ds) (diag # up # rest) left =
     (let v = (if c = d then diag else min (min (up + 1) (left + 1)) (diag + 1))
      in v # lev_row c ds (up # rest) v)"
| "lev_row c ds prev left = []"

fun lev_rows :: "jsstring \<Rightarrow> jsstring \<Rightarrow> nat \<Rightarrow> nat list \<Rightarrow> nat list" where
  "lev_rows [] str2 i prev = prev"
| "lev_rows (c # cs) str2 i prev = lev_rows cs str2 (i + 1) ((i + 1) # lev_row c str2 prev (i + 1))"

definition levenshteinDistance :: "jsstring \<Rightarrow> jsstring \<Rightarrow> nat" where
  "levenshteinDistance str1 str2 = last (lev_rows str1 str2 0 [0 ..< length str2 + 1])"

definition similarity :: "jsstring \<Rightarrow> jsstring \<Rightarrow> rat" where
  "similarity str1 str2 =
     (if \<not> truthy str1 \<or> \<not> truthy str2 then 0
      else if str1 = str2 then 1
      else
        let normalized1 = normalizeName str1;
            normalized2 = normalizeName str2
        in
          if normalized1 = normalized2 then 1
          else if includes_js normalized1 normalized2 \<or> includes_js normalized2 normalized1 then
            let minLen = min (length normalized1) (length normalized2);
                maxLen = max (length normalized1) (length normalized2)
            in
              if minLen \<ge> 2 then
                if startsWith normalized1 normalized2 \<or> startsWith normalized2 normalized1
                then min (95 / 100) (of_nat minLen / of_nat maxLen * (95 / 100) + 1 / 10)
                else min (9 / 10) (of_nat minLen / of_nat maxLen * (9 / 10) + 5 / 100)
              else of_nat minLen / of_nat maxLen * (8 / 10)
          else
            let maxLen = max (length str1) (length str2)
            in if maxLen = 0 then 1
               else 1 - of_nat (levenshteinDistance str1 str2) / of_nat maxLen)"

section \<open>Data model\<close>

text \<open>
  \<open>JunboAddressData\<close> (the reference catalog) is an object of objects.  An inner object is
  modelled by the list \<open>Object.entries\<close> returns for it: its keys in enumeration order,
  each with its value, a string or something else (\<open>typeof v !== 'string'\<close>).  The
  catalog itself is read by key only (\<open>data[k] || {}\<close>).
\<close>

datatype catval = Name jsstring | NotAString

type_synonym jsobject = "(jsstring \<times> catval) list"

type_synonym JunboAddressData = "(jsstring \<times> jsobject) list"

definition entries_at :: "JunboAddressData \<Rightarrow> jsstring \<Rightarrow> jsobject" where
  "entries_at data k = (case map_of data k of None \<Rightarrow> [] | Some obj \<Rightarrow> obj)"

text \<open>The element type of \<open>cachedJunboAddresses\<close>: one reference composite address.\<close>

record JunboAddress =
  provinceCode :: jsstring
  provinceName :: jsstring
  cityCode :: jsstring
  cityName :: jsstring
  districtCode :: jsstring
  districtName :: jsstring

text \<open>
  \<open>OperAddressInput\<close>, one input record.  Its six fields have Chinese names in the
  source: province name, province code, city name, city code, district name and district
  code, in this order.
\<close>

record OperAddressInput =
  op_provinceName :: jsstring
  op_provinceCode :: jsstring
  op_cityName :: jsstring
  op_cityCode :: jsstring
  op_districtName :: jsstring
  op_districtCode :: jsstring

text \<open>
  The \<open>Set\<close> of candidates compares input records by object identity, not by content.
  An input record is therefore carried with its position in the \<open>operInputs\<close> array,
  which is its identity when the array holds distinct objects, as the arrays the callers
  build from the rows of a sheet do.
\<close>

type_synonym operRef = "nat \<times> OperAddressInput"

datatype matchMethod = Code | Exact | Fuzzy | NoMethod

datatype confidence = High | Medium | Low | NoConfidence

record OutputAddressData =
  junbo_province_name :: jsstring
  oper_province_name :: jsstring
  oper_province_code :: jsstring
  junbo_city_name :: jsstring
  oper_city_name :: jsstring
  oper_city_code :: jsstring
  junbo_district_name :: jsstring
  oper_district_name :: jsstring
  oper_district_code :: jsstring
  match_score :: rat
  match_method :: matchMethod
  confidence :: confidence

text \<open>
  \<open>AddressMatchResult\<close>; its fields \<open>input\<close> and \<open>output\<close> are \<open>r_input\<close> and \<open>r_output\<close>
  here.
\<close>

record AddressMatchResult =
  r_input :: OperAddressInput
  r_output :: OutputAddressData
  needsConfirmation :: bool

text \<open>
  The state of an \<open>AddressMatcher\<close> that \<open>batchMatch\<close> reads and writes: the catalog and
  the cache of the generated addresses.  (The name index built by the constructor is
  used by the forward \<open>match\<close> only.)
\<close>

record AddressMatcher =
  addressData :: JunboAddressData
  cachedJunboAddresses :: "JunboAddress list option"

definition new_AddressMatcher :: "JunboAddressData \<Rightarrow> AddressMatcher" where
  "new_AddressMatcher data = \<lparr>addressData = data, cachedJunboAddresses = None\<rparr>"

section \<open>Walk of the catalog\<close>

text \<open>
  The three nested loops of \<open>generateAllJunboAddresses\<close>.  The key \<open>'0000'\<close> is four
  code units 48.  An entry whose value is not a string is skipped, with everything
  below it.
\<close>

definition walk_districts :: "JunboAddressData \<Rightarrow> jsstring \<Rightarrow> jsstring \<Rightarrow> jsstring \<Rightarrow> jsstring
    \<Rightarrow> JunboAddress list" where
  "walk_districts data pCode pName cCode cName =
     concat (map (\<lambda>(dCode, v). case v of
                    Name dName \<Rightarrow> [\<lparr>provinceCode = pCode, provinceName = pName,
                                   cityCode = cCode, cityName = cName,
                                   districtCode = dCode, districtName = dName\<rparr>]
                  | NotAString \<Rightarrow> [])
                 (entries_at data cCode))"

definition walk_cities :: "JunboAddressData \<Rightarrow> jsstring \<Rightarrow> jsstring \<Rightarrow> JunboAddress list" where
  "walk_cities data pCode pName =
     concat (map (\<lambda>(cCode, v). case v of
                    Name cName \<Rightarrow> walk_districts data pCode pName cCode cName
                  | NotAString \<Rightarrow> [])
                 (entries_at data pCode))"

definition walk_catalog :: "JunboAddressData \<Rightarrow> JunboAddress list" where
  "walk_catalog data =
     concat (map (\<lambda>(pCode, v). case v of
                    Name pName \<Rightarrow> walk_cities data pCode pName
                  | NotAString \<Rightarrow> [])
                 (entries_at data [48, 48, 48, 48]))"

text \<open>
  \<open>generateAllJunboAddresses\<close> returns the cached list when there is one, and otherwise
  walks the catalog and stores the result.
\<close>

definition generateAllJunboAddresses :: "AddressMatcher \<Rightarrow> JunboAddress list \<times> AddressMatcher" where
  "generateAllJunboAddresses m =
     (case cachedJunboAddresses m of
        Some cached \<Rightarrow> (cached, m)
      | None \<Rightarrow> (let addresses = walk_catalog (addressData m)
                in (addresses, m\<lparr>cachedJunboAddresses := Some addresses\<rparr>)))"

section \<open>Indexes over the input records\<close>

text \<open>
  \<open>getNormalized\<close> memoizes \<open>normalizeName\<close> in a \<open>Map\<close>; \<open>normalizeName\<close> is a pure
  function, so the cache does not change what is returned.
\<close>

definition getNormalized :: "jsstring \<Rightarrow> jsstring" where
  "getNormalized name = (if \<not> truthy name then [] else normalizeName name)"

record indexes =
  operInputsByCode :: "jsstring \<rightharpoonup> operRef"
  operInputsByProvinceCode :: "jsstring \<rightharpoonup> operRef list"
  operInputsByCityCode :: "jsstring \<rightharpoonup> operRef list"
  operInputsByDistrictCode :: "jsstring \<rightharpoonup> operRef list"
  operInputsByProvinceName :: "jsstring \<rightharpoonup> operRef list"
  operInputsByCityName :: "jsstring \<rightharpoonup> operRef list"
  operInputsByDistrictName :: "jsstring \<rightharpoonup> operRef list"

definition empty_indexes :: indexes where
  "empty_indexes =
     \<lparr>operInputsByCode = Map.empty, operInputsByProvinceCode = Map.empty,
      operInputsByCityCode = Map.empty, operInputsByDistrictCode = Map.empty,
      operInputsByProvinceName = Map.empty, operInputsByCityName = Map.empty,
      operInputsByDistrictName = Map.empty\<rparr>"

text \<open>The template literal \<open>`${p}-${c}-${d}`\<close>; the hyphen is code unit 45.\<close>

definition code_key :: "jsstring \<Rightarrow> jsstring \<Rightarrow> jsstring \<Rightarrow> jsstring" where
  "code_key p c d = p @ [45] @ c @ [45] @ d"

text \<open>\<open>if (!m.has(k)) m.set(k, []); m.get(k).push(x)\<close>.\<close>

definition push_at :: "(jsstring \<rightharpoonup> operRef list) \<Rightarrow> jsstring \<Rightarrow> operRef \<Rightarrow> (jsstring \<rightharpoonup> operRef list)" where
  "push_at m k x = m(k \<mapsto> (case m k of None \<Rightarrow> [] | Some xs \<Rightarrow> xs) @ [x])"

definition push_by_name :: "(jsstring \<rightharpoonup> operRef list) \<Rightarrow> jsstring \<Rightarrow> operRef \<Rightarrow> (jsstring \<rightharpoonup> operRef list)" where
  "push_by_name m name x =
     (if truthy name then
        (let normalized = getNormalized name
         in if truthy normalized then push_at m normalized x else m)
      else m)"

text \<open>One round of the loop of \<open>batchMatch\<close> that builds the indexes.\<close>

definition index_input :: "indexes \<Rightarrow> operRef \<Rightarrow> indexes" where
  "index_input ix r =
     (let inp = snd r
      in \<lparr>operInputsByCode =
            (if truthy (op_provinceCode inp) \<and> truthy (op_cityCode inp) \<and> truthy (op_districtCode inp)
             then (operInputsByCode ix)
                    (code_key (op_provinceCode inp) (op_cityCode inp) (op_districtCode inp) \<mapsto> r)
             else operInputsByCode ix),
          operInputsByProvinceCode =
            (if truthy (op_provinceCode inp)
             then push_at (operInputsByProvinceCode ix) (op_provinceCode inp) r
             else operInputsByProvinceCode ix),
          operInputsByCityCode =
            (if truthy (op_cityCode inp)
             then push_at (operInputsByCityCode ix) (op_cityCode inp) r
             else operInputsByCityCode ix),
          operInputsByDistrictCode =
            (if truthy (op_districtCode inp)
             then push_at (operInputsByDistrictCode ix) (op_districtCode inp) r
             else operInputsByDistrictCode ix),
          operInputsByProvinceName =
            push_by_name (operInputsByProvinceName ix) (op_provinceName inp) r,
          operInputsByCityName =
            push_by_name (operInputsByCityName ix) (op_cityName inp) r,
          operInputsByDistrictName =
            push_by_name (operInputsByDistrictName ix) (op_districtName inp) r\<rparr>)"

definition with_identity :: "OperAddressInput list \<Rightarrow> operRef list" where
  "with_identity operInputs = zip [0 ..< length operInputs] operInputs"

definition build_indexes :: "OperAddressInput list \<Rightarrow> indexes" where
  "build_indexes operInputs = foldl index_input empty_indexes (with_identity operInputs)"

section \<open>Candidate pruning\<close>

text \<open>
  \<open>xs.forEach(x => candidateSet.add(x))\<close> on the result of a \<open>Map.get\<close>: a \<open>Set\<close> keeps
  insertion order and ignores an element it already holds.
\<close>

definition set_add :: "operRef list \<Rightarrow> operRef \<Rightarrow> operRef list" where
  "set_add s x = (if x \<in> set s then s else s @ [x])"

definition add_all :: "operRef list \<Rightarrow> operRef list option \<Rightarrow> operRef list" where
  "add_all s found = (case found of None \<Rightarrow> s | Some xs \<Rightarrow> foldl set_add s xs)"

definition add_by_name :: "operRef list \<Rightarrow> (jsstring \<rightharpoonup> operRef list) \<Rightarrow> jsstring \<Rightarrow> operRef list" where
  "add_by_name s m name =
     (let normalized = getNormalized name
      in if truthy normalized then add_all s (m normalized) else s)"

definition getCandidateInputs :: "JunboAddress \<Rightarrow> indexes \<Rightarrow> operRef list" where
  "getCandidateInputs junboAddress ix =
     (let s0 = [];
          s1 = (if truthy (districtCode junboAddress)
                then add_all s0 (operInputsByDistrictCode ix (districtCode junboAddress)) else s0);
          s2 = (if truthy (cityCode junboAddress)
                then add_all s1 (operInputsByCityCode ix (cityCode junboAddress)) else s1);
          s3 = (if truthy (provinceCode junboAddress)
                then add_all s2 (operInputsByProvinceCode ix (provinceCode junboAddress)) else s2)
      in if length s3 < 10 then
           (let s4 = add_by_name s3 (operInputsByDistrictName ix) (districtName junboAddress);
                s5 = add_by_name s4 (operInputsByCityName ix) (cityName junboAddress);
                s6 = add_by_name s5 (operInputsByProvinceName ix) (provinceName junboAddress)
            in s6)
         else s3)"

section \<open>Staged scoring of one candidate\<close>

text \<open>
  The body of the loop of \<open>matchOperAddressFromJunboOptimized\<close> over the candidates, one
  function per level.  Each takes the locals \<open>score\<close> and \<open>method\<close> as they are when the
  level starts and returns them with the flag (or flags) the level sets.
\<close>

definition province_level :: "JunboAddress \<Rightarrow> OperAddressInput \<Rightarrow> rat \<Rightarrow> matchMethod
    \<Rightarrow> rat \<times> matchMethod \<times> bool" where
  "province_level junboAddress operInput score method =
     (let normalizedJunboProvince = getNormalized (provinceName junboAddress)
      in
        if truthy (op_provinceCode operInput)
           \<and> op_provinceCode operInput = provinceCode junboAddress
        then (score + 25 / 100, Code, True)
        else if truthy (op_provinceName operInput)
                \<and> op_provinceName operInput = provinceName junboAddress
        then (score + 25 / 100, (if method = NoMethod then Exact else method), True)
        else if truthy (op_provinceName operInput) \<and> truthy normalizedJunboProvince
        then
          (let normalizedOper = getNormalized (op_provinceName operInput)
           in
             if normalizedOper = normalizedJunboProvince
             then (score + 25 / 100, (if method = NoMethod then Exact else method), True)
             else if truthy normalizedOper \<and> truthy normalizedJunboProvince
             then
               (let sim = similarity normalizedOper normalizedJunboProvince
                in if sim \<ge> 7 / 10
                   then (score + 25 / 100 * sim,
                         (if method = NoMethod then Fuzzy else method), True)
                   else (score, method, False))
             else (score, method, False))
        else (score, method, False))"

definition city_level :: "JunboAddress \<Rightarrow> OperAddressInput \<Rightarrow> rat \<Rightarrow> matchMethod
    \<Rightarrow> rat \<times> matchMethod \<times> bool" where
  "city_level junboAddress operInput score method =
     (let normalizedJunboCity = getNormalized (cityName junboAddress)
      in
        if truthy (op_cityCode operInput) \<and> op_cityCode operInput = cityCode junboAddress
        then (score + 25 / 100, (if method = Code then Code else method), True)
        else if truthy (op_cityName operInput) \<and> op_cityName operInput = cityName junboAddress
        then (score + 25 / 100, (if method = NoMethod then Exact else method), True)
        else if truthy (op_cityName operInput) \<and> truthy normalizedJunboCity
        then
          (let normalizedOper = getNormalized (op_cityName operInput)
           in
             if normalizedOper = normalizedJunboCity
             then (score + 25 / 100, (if method = NoMethod then Exact else method), True)
             else if truthy normalizedOper \<and> truthy normalizedJunboCity
             then
               (if includes_js normalizedOper normalizedJunboCity
                   \<or> includes_js normalizedJunboCity normalizedOper
                then
                  (let minLen = min (length normalizedOper) (length normalizedJunboCity)
                   in
                     if minLen \<ge> 2 then
                       (if startsWith normalizedOper normalizedJunboCity
                           \<or> startsWith normalizedJunboCity normalizedOper
                        then (score + 25 / 100 * (95 / 100),
                              (if method = NoMethod then Exact else method), True)
                        else (score + 25 / 100 * (85 / 100),
                              (if method = Fuzzy then Fuzzy else method), True))
                     else (score, method, False))
                else
                  (let sim = similarity normalizedOper normalizedJunboCity
                   in if sim \<ge> 7 / 10
                      then (score + 25 / 100 * sim,
                            (if method = Fuzzy then Fuzzy else method), True)
                      else (score, method, False)))
             else (score, method, False))
        else (score, method, False))"

text \<open>
  \<open>s.replace(/[...]$/, '')\<close> with the class of U+9547, U+533A and U+53BF: the last code
  unit is removed when it is one of the three.
\<close>

definition strip_level_char :: "jsstring \<Rightarrow> jsstring" where
  "strip_level_char s = (if s \<noteq> [] \<and> last s \<in> {38215, 21306, 21439} then butlast s else s)"

text \<open>The district level returns \<open>districtExactMatch\<close> and \<open>districtFuzzyMatch\<close>.\<close>

definition district_level :: "JunboAddress \<Rightarrow> OperAddressInput \<Rightarrow> rat \<Rightarrow> matchMethod
    \<Rightarrow> rat \<times> matchMethod \<times> bool \<times> bool" where
  "district_level junboAddress operInput score method =
     (let normalizedJunboDistrict = getNormalized (districtName junboAddress)
      in
        if truthy (op_districtCode operInput)
           \<and> op_districtCode operInput = districtCode junboAddress
        then (score + 5 / 10, (if method = Code then Code else method), True, False)
        else if truthy (op_districtName operInput)
                \<and> op_districtName operInput = districtName junboAddress
        then (score + 5 / 10, (if method = NoMethod then Exact else method), True, False)
        else if truthy (op_districtName operInput) \<and> truthy normalizedJunboDistrict
        then
          (let normalizedOper = getNormalized (op_districtName operInput)
           in
             if normalizedOper = normalizedJunboDistrict
             then (score + 5 / 10, (if method = NoMethod then Exact else method), True, False)
             else if truthy normalizedOper \<and> truthy normalizedJunboDistrict
             then
               (let operWithoutSuffix = strip_level_char normalizedOper;
                    junboWithoutSuffix = strip_level_char normalizedJunboDistrict
                in
                  if operWithoutSuffix = junboWithoutSuffix
                     \<or> (length operWithoutSuffix > 0 \<and> length junboWithoutSuffix > 0
                         \<and> (includes_js operWithoutSuffix junboWithoutSuffix
                              \<or> includes_js junboWithoutSuffix operWithoutSuffix))
                  then (score + 5 / 10 * (95 / 100),
                        (if method = Fuzzy then Fuzzy else method), False, True)
                  else
                    (let sim = similarity normalizedOper normalizedJunboDistrict
                     in if sim \<ge> 85 / 100
                        then (score + 5 / 10 * sim,
                              (if method = Fuzzy then Fuzzy else method), False, True)
                        else (score, method, False, False)))
             else (score, method, False, False))
        else (score, method, False, False))"

text \<open>
  The locals of one round of the loop when it reaches \<open>if (score > 0)\<close>.  The city level
  runs inside \<open>if (provinceMatched)\<close> and the district level inside \<open>if (cityMatched)\<close>.
\<close>

record scored =
  sc_score :: rat
  sc_method :: matchMethod
  provinceMatched :: bool
  cityMatched :: bool
  sc_districtExactMatch :: bool
  sc_districtFuzzyMatch :: bool

definition score_candidate :: "JunboAddress \<Rightarrow> OperAddressInput \<Rightarrow> scored" where
  "score_candidate junboAddress operInput =
     (case province_level junboAddress operInput 0 NoMethod of
        (score1, method1, pMatched) \<Rightarrow>
          if pMatched then
            (case city_level junboAddress operInput score1 method1 of
               (score2, method2, cMatched) \<Rightarrow>
                 if cMatched then
                   (case district_level junboAddress operInput score2 method2 of
                      (score3, method3, dExact, dFuzzy) \<Rightarrow>
                        \<lparr>sc_score = score3, sc_method = method3, provinceMatched = True,
                         cityMatched = True, sc_districtExactMatch = dExact,
                         sc_districtFuzzyMatch = dFuzzy\<rparr>)
                 else
                   \<lparr>sc_score = score2, sc_method = method2, provinceMatched = True,
                    cityMatched = False, sc_districtExactMatch = False,
                    sc_districtFuzzyMatch = False\<rparr>)
          else
            \<lparr>sc_score = score1, sc_method = method1, provinceMatched = False,
             cityMatched = False, sc_districtExactMatch = False,
             sc_districtFuzzyMatch = False\<rparr>)"

section \<open>Selection among the candidates\<close>

record MatchCandidate =
  mc_input :: operRef
  mc_score :: rat
  mc_method :: matchMethod
  districtExactMatch :: bool
  districtFuzzyMatch :: bool

text \<open>The candidates pushed by the loop: those with \<open>score > 0\<close>, in the order scored.\<close>

definition to_candidate :: "JunboAddress \<Rightarrow> operRef \<Rightarrow> MatchCandidate list" where
  "to_candidate junboAddress r =
     (let s = score_candidate junboAddress (snd r)
      in if sc_score s > 0
         then [\<lparr>mc_input = r, mc_score = sc_score s, mc_method = sc_method s,
                districtExactMatch = sc_districtExactMatch s,
                districtFuzzyMatch = sc_districtFuzzyMatch s\<rparr>]
         else [])"

definition score_candidates :: "JunboAddress \<Rightarrow> operRef list \<Rightarrow> MatchCandidate list" where
  "score_candidates junboAddress candidateInputs =
     concat (map (to_candidate junboAddress) candidateInputs)"

text \<open>
  \<open>xs.reduce((prev, curr) => curr.score > prev.score ? curr : prev)\<close> on a non-empty
  array, given as its first element and the rest.
\<close>

definition reduce_best :: "MatchCandidate \<Rightarrow> MatchCandidate list \<Rightarrow> MatchCandidate" where
  "reduce_best c cs = foldl (\<lambda>prev curr. if mc_score curr > mc_score prev then curr else prev) c cs"

definition confidence_of :: "rat \<Rightarrow> confidence" where
  "confidence_of score =
     (if score \<ge> 9 / 10 then High
      else if score \<ge> 6 / 10 then Medium
      else if score > 0 then Low
      else NoConfidence)"

record matchResult =
  matched :: "operRef option"
  matchScore :: rat
  matchMethod :: matchMethod
  matchConfidence :: confidence

definition select_best :: "MatchCandidate list \<Rightarrow> operRef option \<times> rat \<times> matchMethod" where
  "select_best candidates =
     (let exactDistrictMatches = filter districtExactMatch candidates
      in case exactDistrictMatches of
           c # cs \<Rightarrow> (let best = reduce_best c cs
                      in (Some (mc_input best), mc_score best, mc_method best))
         | [] \<Rightarrow>
           (case candidates of
              c # cs \<Rightarrow> (let best = reduce_best c cs
                         in (Some (mc_input best), mc_score best, mc_method best))
            | [] \<Rightarrow> (None, 0, NoMethod)))"

definition matchOperAddressFromJunboOptimized :: "JunboAddress \<Rightarrow> operRef list \<Rightarrow> matchResult" where
  "matchOperAddressFromJunboOptimized junboAddress candidateInputs =
     (case select_best (score_candidates junboAddress candidateInputs) of
        (bestMatch, bestScore, bestMethod) \<Rightarrow>
          \<lparr>matched = bestMatch, matchScore = bestScore, matchMethod = bestMethod,
           matchConfidence = confidence_of bestScore\<rparr>)"

section \<open>Batch orchestrator\<close>

text \<open>\<open>matchResult.matched?.f || ''\<close> for a field \<open>f\<close> of the matched record.\<close>

definition field_or_empty :: "operRef option \<Rightarrow> (OperAddressInput \<Rightarrow> jsstring) \<Rightarrow> jsstring" where
  "field_or_empty m f = (case m of None \<Rightarrow> [] | Some r \<Rightarrow> f (snd r))"

definition matchSingleJunboAddress :: "JunboAddress \<Rightarrow> indexes \<Rightarrow> AddressMatchResult" where
  "matchSingleJunboAddress junboAddress ix =
     (let codeKey = code_key (provinceCode junboAddress) (cityCode junboAddress)
                             (districtCode junboAddress);
          matchResult =
            (case operInputsByCode ix codeKey of
               Some exactMatch \<Rightarrow>
                 \<lparr>matched = Some exactMatch, matchScore = 1, matchMethod = Code,
                  matchConfidence = High\<rparr>
             | None \<Rightarrow>
                 matchOperAddressFromJunboOptimized junboAddress
                   (getCandidateInputs junboAddress ix))
      in \<lparr>r_input =
            \<lparr>op_provinceName = field_or_empty (matched matchResult) op_provinceName,
             op_provinceCode = field_or_empty (matched matchResult) op_provinceCode,
             op_cityName = field_or_empty (matched matchResult) op_cityName,
             op_cityCode = field_or_empty (matched matchResult) op_cityCode,
             op_districtName = field_or_empty (matched matchResult) op_districtName,
             op_districtCode = field_or_empty (matched matchResult) op_districtCode\<rparr>,
          r_output =
            \<lparr>junbo_province_name = provinceName junboAddress,
             oper_province_name = field_or_empty (matched matchResult) op_provinceName,
             oper_province_code = field_or_empty (matched matchResult) op_provinceCode,
             junbo_city_name = cityName junboAddress,
             oper_city_name = field_or_empty (matched matchResult) op_cityName,
             oper_city_code = field_or_empty (matched matchResult) op_cityCode,
             junbo_district_name = districtName junboAddress,
             oper_district_name = field_or_empty (matched matchResult) op_districtName,
             oper_district_code = field_or_empty (matched matchResult) op_districtCode,
             match_score = matchScore matchResult,
             match_method = matchMethod matchResult,
             confidence = matchConfidence matchResult\<rparr>,
          needsConfirmation =
            (matchConfidence matchResult = Low \<or> matchConfidence matchResult = NoConfidence)\<rparr>)"

text \<open>
  The loop \<open>for (let i = 0; i < all.length; i += batchSize)\<close>, which maps each slice
  \<open>all.slice(i, i + batchSize)\<close> and appends the results.
\<close>

definition batchSize :: nat where
  "batchSize = 100"

definition slice_js :: "'a list \<Rightarrow> nat \<Rightarrow> nat \<Rightarrow> 'a list" where
  "slice_js xs a b = take (b - a) (drop a xs)"

function batch_loop :: "(JunboAddress \<Rightarrow> AddressMatchResult) \<Rightarrow> JunboAddress list \<Rightarrow> nat
    \<Rightarrow> AddressMatchResult list \<Rightarrow> AddressMatchResult list" where
  "batch_loop f allJunboAddresses i results =
     (if i < length allJunboAddresses
      then batch_loop f allJunboAddresses (i + batchSize)
             (results @ map f (slice_js allJunboAddresses i (i + batchSize)))
      else results)"
  by pat_completeness auto
termination
  by (relation "measure (\<lambda>(f, a, i, r). length a - i)") (auto simp: batchSize_def)

declare batch_loop.simps [simp del]

text \<open>
  The comparator given to \<open>results.sort\<close>.  \<open>String.prototype.localeCompare\<close> belongs to
  the runtime and depends on its locale; it is the parameter \<open>lc\<close>.
\<close>

definition compare_results :: "(jsstring \<Rightarrow> jsstring \<Rightarrow> int) \<Rightarrow> AddressMatchResult
    \<Rightarrow> AddressMatchResult \<Rightarrow> int" where
  "compare_results lc a b =
     (let provinceCompare = lc (junbo_province_name (r_output a)) (junbo_province_name (r_output b))
      in if provinceCompare \<noteq> 0 then provinceCompare
         else
           (let cityCompare = lc (junbo_city_name (r_output a)) (junbo_city_name (r_output b))
            in if cityCompare \<noteq> 0 then cityCompare
               else lc (junbo_district_name (r_output a)) (junbo_district_name (r_output b))))"

text \<open>
  \<open>Array.prototype.sort\<close> is stable, and with a consistent comparator it returns the
  array ordered by it: an insertion sort that puts an element before the first one it
  does not come after.
\<close>

fun insort_js :: "('a \<Rightarrow> 'a \<Rightarrow> int) \<Rightarrow> 'a \<Rightarrow> 'a list \<Rightarrow> 'a list" where
  "insort_js cmp x [] = [x]"
| "insort_js cmp x (y # ys) = (if cmp x y \<le> 0 then x # y # ys else y # insort_js cmp x ys)"

definition sort_js :: "('a \<Rightarrow> 'a \<Rightarrow> int) \<Rightarrow> 'a list \<Rightarrow> 'a list" where
  "sort_js cmp xs = foldr (insort_js cmp) xs []"

definition batchMatch :: "(jsstring \<Rightarrow> jsstring \<Rightarrow> int) \<Rightarrow> AddressMatcher \<Rightarrow> OperAddressInput list
    \<Rightarrow> AddressMatchResult list \<times> AddressMatcher" where
  "batchMatch lc m operInputs =
     (case generateAllJunboAddresses m of
        (allJunboAddresses, m') \<Rightarrow>
          (let ix = build_indexes operInputs;
               results = batch_loop (\<lambda>junboAddress. matchSingleJunboAddress junboAddress ix)
                           allJunboAddresses 0 []
           in (sort_js (compare_results lc) results, m')))"

section \<open>Notions used in the statements\<close>

text \<open>A string that still ends with one of the suffixes \<open>normalizeName\<close> removes.\<close>

definition ends_with_listed_suffix :: "jsstring \<Rightarrow> bool" where
  "ends_with_listed_suffix s = list_ex (endsWith s) normalize_suffixes"

text \<open>The three reference names of an output record and of a composite address.\<close>

definition ref_names :: "AddressMatchResult \<Rightarrow> jsstring \<times> jsstring \<times> jsstring" where
  "ref_names r = (junbo_province_name (r_output r), junbo_city_name (r_output r),
                  junbo_district_name (r_output r))"

definition junbo_names :: "JunboAddress \<Rightarrow> jsstring \<times> jsstring \<times> jsstring" where
  "junbo_names j = (provinceName j, cityName j, districtName j)"

text \<open>Score, method and confidence of an output record.\<close>

definition result_summary :: "AddressMatchResult \<Rightarrow> rat \<times> matchMethod \<times> confidence" where
  "result_summary r = (match_score (r_output r), match_method (r_output r), confidence (r_output r))"

text \<open>
  The lexicographic order on triples of names that a string comparator \<open>lc\<close> induces:
  by province name first, then city name, then district name.
\<close>

fun lex3_le :: "(jsstring \<Rightarrow> jsstring \<Rightarrow> int) \<Rightarrow> jsstring \<times> jsstring \<times> jsstring
    \<Rightarrow> jsstring \<times> jsstring \<times> jsstring \<Rightarrow> bool" where
  "lex3_le lc (p1, c1, d1) (p2, c2, d2) =
     (lc p1 p2 < 0 \<or> (lc p1 p2 = 0 \<and> (lc c1 c2 < 0 \<or> (lc c1 c2 = 0 \<and> lc d1 d2 \<le> 0))))"

text \<open>
  What \<open>Array.prototype.sort\<close> asks of a comparator, for \<open>localeCompare\<close>: swapping the
  arguments swaps the sign, and \<open>\<le> 0\<close> is transitive.
\<close>

definition consistent_comparator :: "(jsstring \<Rightarrow> jsstring \<Rightarrow> int) \<Rightarrow> bool" where
  "consistent_comparator lc =
     ((\<forall>a b. (lc a b < 0) = (lc b a > 0))
      \<and> (\<forall>a b c. lc a b \<le> 0 \<and> lc b c \<le> 0 \<longrightarrow> lc a c \<le> 0))"

text \<open>One such comparator: the order of strings by code units.\<close>

fun codeUnitCompare :: "jsstring \<Rightarrow> jsstring \<Rightarrow> int" where
  "codeUnitCompare [] [] = 0"
| "codeUnitCompare [] (y # ys) = - 1"
| "codeUnitCompare (x # xs) [] = 1"
| "codeUnitCompare (x # xs) (y # ys) =
     (if x < y then - 1 else if y < x then 1 else codeUnitCompare xs ys)"

text \<open>
  A level is scored by \<open>similarity\<close> when the tests before it fail: no code match, no
  equal names, and two non-empty normalized names that differ; at the city level also
  neither normalized name containing the other; at the district level also the names
  without their level character neither equal nor, when both non-empty, one containing
  the other.
\<close>

definition province_by_similarity :: "JunboAddress \<Rightarrow> OperAddressInput \<Rightarrow> bool" where
  "province_by_similarity j operInput =
     (\<not> (truthy (op_provinceCode operInput) \<and> op_provinceCode operInput = provinceCode j)
      \<and> op_provinceName operInput \<noteq> provinceName j
      \<and> truthy (getNormalized (op_provinceName operInput))
      \<and> truthy (getNormalized (provinceName j))
      \<and> getNormalized (op_provinceName operInput) \<noteq> getNormalized (provinceName j))"

definition city_by_similarity :: "JunboAddress \<Rightarrow> OperAddressInput \<Rightarrow> bool" where
  "city_by_similarity j operInput =
     (\<not> (truthy (op_cityCode operInput) \<and> op_cityCode operInput = cityCode j)
      \<and> op_cityName operInput \<noteq> cityName j
      \<and> truthy (getNormalized (op_cityName operInput))
      \<and> truthy (getNormalized (cityName j))
      \<and> getNormalized (op_cityName operInput) \<noteq> getNormalized (cityName j)
      \<and> \<not> includes_js (getNormalized (op_cityName operInput)) (getNormalized (cityName j))
      \<and> \<not> includes_js (getNormalized (cityName j)) (getNormalized (op_cityName operInput)))"

definition district_by_similarity :: "JunboAddress \<Rightarrow> OperAddressInput \<Rightarrow> bool" where
  "district_by_similarity j operInput =
     (\<not> (truthy (op_districtCode operInput) \<and> op_districtCode operInput = districtCode j)
      \<and> op_districtName operInput \<noteq> districtName j
      \<and> truthy (getNormalized (op_districtName operInput))
      \<and> truthy (getNormalized (districtName j))
      \<and> getNormalized (op_districtName operInput) \<noteq> getNormalized (districtName j)
      \<and> strip_level_char (getNormalized (op_districtName operInput))
           \<noteq> strip_level_char (getNormalized (districtName j))
      \<and> \<not> (strip_level_char (getNormalized (op_districtName operInput)) \<noteq> []
             \<and> strip_level_char (getNormalized (districtName j)) \<noteq> []
             \<and> (includes_js (strip_level_char (getNormalized (op_districtName operInput)))
                             (strip_level_char (getNormalized (districtName j)))
                  \<or> includes_js (strip_level_char (getNormalized (districtName j)))
                                 (strip_level_char (getNormalized (op_districtName operInput))))))"


section \<open>Example data\<close>

text \<open>
  A small catalog: the province U+9ED1 U+9F99 U+6C5F U+7701 (code 23), its city
  U+54C8 U+5C14 U+6EE8 U+5E02 (code 2301) and two districts of the city,
  U+9053 U+91CC U+533A (code 230102) and U+5357 U+5C97 U+533A (code 230103).
\<close>

definition example_catalog :: JunboAddressData where
  "example_catalog =
     [([48, 48, 48, 48], [([50, 51], Name [40657, 40857, 27743, 30465])]),
      ([50, 51], [([50, 51, 48, 49], Name [21704, 23572, 28392, 24066])]),
      ([50, 51, 48, 49],
         [([50, 51, 48, 49, 48, 50], Name [36947, 37324, 21306]),
          ([50, 51, 48, 49, 48, 51], Name [21335, 23703, 21306])])]"

definition daoli :: JunboAddress where
  "daoli = \<lparr>provinceCode = [50, 51], provinceName = [40657, 40857, 27743, 30465],
            cityCode = [50, 51, 48, 49], cityName = [21704, 23572, 28392, 24066],
            districtCode = [50, 51, 48, 49, 48, 50], districtName = [36947, 37324, 21306]\<rparr>"

definition nangang :: JunboAddress where
  "nangang = \<lparr>provinceCode = [50, 51], provinceName = [40657, 40857, 27743, 30465],
              cityCode = [50, 51, 48, 49], cityName = [21704, 23572, 28392, 24066],
              districtCode = [50, 51, 48, 49, 48, 51], districtName = [21335, 23703, 21306]\<rparr>"

text \<open>An input record that carries the three codes of the first district and no names.\<close>

definition input_codes_only :: OperAddressInput where
  "input_codes_only =
     \<lparr>op_provinceName = [], op_provinceCode = [50, 51],
      op_cityName = [], op_cityCode = [50, 51, 48, 49],
      op_districtName = [], op_districtCode = [50, 51, 48, 49, 48, 50]\<rparr>"

text \<open>
  An input record with the province named U+9ED1 U+9F99 (the catalog name without its
  last two characters) and no province code, and the city and district codes of the
  first district.
\<close>

definition input_short_province :: OperAddressInput where
  "input_short_province =
     \<lparr>op_provinceName = [40657, 40857], op_provinceCode = [],
      op_cityName = [], op_cityCode = [50, 51, 48, 49],
      op_districtName = [], op_districtCode = [50, 51, 48, 49, 48, 50]\<rparr>"

text \<open>
  An input record with the province and city codes of the catalog, another district
  code (230199) and the district named U+9053 U+91CC U+8857, which contains the
  normalized name of the first district.
\<close>

definition input_near_district :: OperAddressInput where
  "input_near_district =
     \<lparr>op_provinceName = [], op_provinceCode = [50, 51],
      op_cityName = [], op_cityCode = [50, 51, 48, 49],
      op_districtName = [36947, 37324, 34903], op_districtCode = [50, 51, 48, 49, 57, 57]\<rparr>"

text \<open>
  An input record without codes whose three names each differ from the catalog's in
  their last character: U+9ED1 U+9F99, U+54C8 U+5C14 U+5175 and U+9053 U+7406.
\<close>

definition input_names_only :: OperAddressInput where
  "input_names_only =
     \<lparr>op_provinceName = [40657, 40857], op_provinceCode = [],
      op_cityName = [21704, 23572, 20853], op_cityCode = [],
      op_districtName = [36947, 29702], op_districtCode = []\<rparr>"

text \<open>
  An input record with the province code of the catalog and, as city name, the province
  name followed by the city name: U+9ED1 U+9F99 U+6C5F U+54C8 U+5C14 U+6EE8.
\<close>

definition input_long_city :: OperAddressInput where
  "input_long_city =
     \<lparr>op_provinceName = [], op_provinceCode = [50, 51],
      op_cityName = [40657, 40857, 27743, 21704, 23572, 28392], op_cityCode = [],
      op_districtName = [], op_districtCode = []\<rparr>"

text \<open>
  An input record of another province (code 99) that happens to carry the district code
  of the first district.
\<close>

definition input_other_province :: OperAddressInput where
  "input_other_province =
     \<lparr>op_provinceName = [], op_provinceCode = [57, 57],
      op_cityName = [], op_cityCode = [57, 57, 48, 49],
      op_districtName = [], op_districtCode = [50, 51, 48, 49, 48, 50]\<rparr>"

text \<open>
  A catalog whose only district has the empty string as its code, the composite address
  it yields, and an input record with the same three codes: it names the province and
  the city and leaves the district name and code empty.
\<close>

definition catalog_empty_code :: JunboAddressData where
  "catalog_empty_code =
     [([48, 48, 48, 48], [([50, 51], Name [40657, 40857, 27743, 30465])]),
      ([50, 51], [([50, 51, 48, 49], Name [21704, 23572, 28392, 24066])]),
      ([50, 51, 48, 49], [([], Name [36947, 37324, 21306])])]"

definition address_empty_code :: JunboAddress where
  "address_empty_code =
     \<lparr>provinceCode = [50, 51], provinceName = [40657, 40857, 27743, 30465],
      cityCode = [50, 51, 48, 49], cityName = [21704, 23572, 28392, 24066],
      districtCode = [], districtName = [36947, 37324, 21306]\<rparr>"

definition input_empty_code :: OperAddressInput where
  "input_empty_code =
     \<lparr>op_provinceName = [40657, 40857, 27743, 30465], op_provinceCode = [50, 51],
      op_cityName = [21704, 23572, 28392, 24066], op_cityCode = [50, 51, 48, 49],
      op_districtName = [], op_districtCode = []\<rparr>"




section \<open>Evaluation on the example data\<close>

text \<open>
  Concrete inputs are evaluated by rewriting with the definitions; these are the sets
  of definitions and the values of the example data the later sections use.
\<close>

lemmas norm_eval = normalizeName_def normalize_suffixes_def replace_end_def endsWith_def
  suffix_to_prefix trim_def is_space_def

lemmas index_eval = build_indexes_def with_identity_def index_input_def empty_indexes_def
  push_at_def push_by_name_def getNormalized_def code_key_def

lemmas candidate_eval = getCandidateInputs_def add_all_def add_by_name_def set_add_def

lemmas lev_eval = levenshteinDistance_def upt_rec

lemma example_fields:
  "provinceCode daoli = [50, 51]"
  "provinceName daoli = [40657, 40857, 27743, 30465]"
  "cityCode daoli = [50, 51, 48, 49]"
  "cityName daoli = [21704, 23572, 28392, 24066]"
  "districtCode daoli = [50, 51, 48, 49, 48, 50]"
  "districtName daoli = [36947, 37324, 21306]"
  "op_provinceName input_codes_only = []"
  "op_provinceCode input_codes_only = [50, 51]"
  "op_cityName input_codes_only = []"
  "op_cityCode input_codes_only = [50, 51, 48, 49]"
  "op_districtName input_codes_only = []"
  "op_districtCode input_codes_only = [50, 51, 48, 49, 48, 50]"
  "op_provinceName input_short_province = [40657, 40857]"
  "op_provinceCode input_short_province = []"
  "op_cityName input_short_province = []"
  "op_cityCode input_short_province = [50, 51, 48, 49]"
  "op_districtName input_short_province = []"
  "op_districtCode input_short_province = [50, 51, 48, 49, 48, 50]"
  "op_provinceName input_near_district = []"
  "op_provinceCode input_near_district = [50, 51]"
  "op_cityName input_near_district = []"
  "op_cityCode input_near_district = [50, 51, 48, 49]"
  "op_districtName input_near_district = [36947, 37324, 34903]"
  "op_districtCode input_near_district = [50, 51, 48, 49, 57, 57]"
  "op_provinceName input_other_province = []"
  "op_provinceCode input_other_province = [57, 57]"
  "op_cityName input_other_province = []"
  "op_cityCode input_other_province = [57, 57, 48, 49]"
  "op_districtName input_other_province = []"
  "op_districtCode input_other_province = [50, 51, 48, 49, 48, 50]"
  "op_provinceName input_names_only = [40657, 40857]"
  "op_provinceCode input_names_only = []"
  "op_cityName input_names_only = [21704, 23572, 20853]"
  "op_cityCode input_names_only = []"
  "op_districtName input_names_only = [36947, 29702]"
  "op_districtCode input_names_only = []"
  by (simp_all add: daoli_def input_codes_only_def input_short_province_def
      input_near_district_def input_other_province_def input_names_only_def)

lemma nangang_fields:
  "provinceName nangang = [40657, 40857, 27743, 30465]"
  "cityName nangang = [21704, 23572, 28392, 24066]"
  "districtName nangang = [21335, 23703, 21306]"
  by (simp_all add: nangang_def)

lemma input_empty_code_fields:
  "op_provinceName input_empty_code = [40657, 40857, 27743, 30465]"
  "op_provinceCode input_empty_code = [50, 51]"
  "op_cityName input_empty_code = [21704, 23572, 28392, 24066]"
  "op_cityCode input_empty_code = [50, 51, 48, 49]"
  "op_districtName input_empty_code = []"
  "op_districtCode input_empty_code = []"
  by (simp_all add: input_empty_code_def)

lemma address_empty_code_fields:
  "provinceCode address_empty_code = [50, 51]"
  "provinceName address_empty_code = [40657, 40857, 27743, 30465]"
  "cityCode address_empty_code = [50, 51, 48, 49]"
  "cityName address_empty_code = [21704, 23572, 28392, 24066]"
  "districtCode address_empty_code = []"
  "districtName address_empty_code = [36947, 37324, 21306]"
  by (simp_all add: address_empty_code_def)

lemma normalized_examples:
  "getNormalized [40657, 40857] = [40657, 40857]"
  "getNormalized [40657, 40857, 27743, 30465] = [40657, 40857, 27743]"
  "getNormalized [21704, 23572, 20853] = [21704, 23572, 20853]"
  "getNormalized [21704, 23572, 28392, 24066] = [21704, 23572, 28392]"
  "getNormalized [36947, 29702] = [36947, 29702]"
  "getNormalized [36947, 37324, 21306] = [36947, 37324]"
  "getNormalized [36947, 37324, 34903] = [36947, 37324, 34903]"
  "getNormalized [] = []"
  by (simp_all add: getNormalized_def norm_eval)

lemma sim_province: "similarity [40657, 40857] [40657, 40857, 27743] = 11 / 15"
  by (simp add: similarity_def norm_eval includes_js_def startsWith_def sublist_code)

lemma sim_city: "similarity [21704, 23572, 20853] [21704, 23572, 28392] = 2 / 3"
  by (simp add: similarity_def norm_eval includes_js_def startsWith_def sublist_code lev_eval)

lemma sim_district: "similarity [36947, 29702] [36947, 37324] = 1 / 2"
  by (simp add: similarity_def norm_eval includes_js_def startsWith_def sublist_code lev_eval)

lemma walk_example: "walk_catalog example_catalog = [daoli, nangang]"
  by (simp add: walk_catalog_def walk_cities_def walk_districts_def entries_at_def
      example_catalog_def daoli_def nangang_def)

lemma walk_empty_code: "walk_catalog catalog_empty_code = [address_empty_code]"
  by (simp add: walk_catalog_def walk_cities_def walk_districts_def entries_at_def
      catalog_empty_code_def address_empty_code_def)

section \<open>Similarity of names with equal normalized forms\<close>

text \<open>
  Claim C10.  For non-empty strings \<open>a\<close> and \<open>b\<close> whose normalized forms are equal,
  \<open>similarity a b\<close> is exactly 1.  This includes two different names that both
  normalize to the empty string: the names U+7701 and U+5E02, each a bare suffix, score 1.
\<close>

theorem similarity_normalized_equal:
  assumes "a \<noteq> []" and "b \<noteq> []" and "normalizeName a = normalizeName b"
  shows "similarity a b = 1"
  using assms by (simp add: similarity_def Let_def)

text \<open>
  The two bare suffixes U+7701 and U+5E02.
\<close>

theorem similarity_normalized_equal_witness:
  "[30465] \<noteq> ([] :: jsstring) \<and> [24066] \<noteq> ([] :: jsstring) \<and> normalizeName [30465] = normalizeName [24066] \<and> normalizeName [24066] = []
   \<and> similarity [30465] [24066] = 1"
proof -
  have h: "normalizeName [30465] = normalizeName [24066]" "normalizeName [24066] = []"
    by (simp_all add: norm_eval)
  have "similarity [30465] [24066] = 1"
    by (rule similarity_normalized_equal [OF _ _ h(1)]) simp_all
  with h show ?thesis by simp
qed

section \<open>Similarity under containment\<close>

lemma sublist_same_length: "sublist xs ys \<Longrightarrow> length xs = length ys \<Longrightarrow> xs = ys"
  by (auto simp: sublist_def)

lemma containment_lengths:
  assumes "n1 \<noteq> n2" and "includes_js n1 n2 \<or> includes_js n2 n1"
  shows "length n1 \<noteq> length n2"
  using assms unfolding includes_js_def by (metis sublist_same_length)

text \<open>
  Claim C6.  Let \<open>a\<close> and \<open>b\<close> be non-empty, unequal strings whose normalized forms
  \<open>n1\<close> and \<open>n2\<close> are unequal, one containing the other, and let \<open>minLen\<close> and
  \<open>maxLen\<close> be the smaller and the larger of their lengths.  If the shorter form is a
  prefix of the longer and \<open>minLen \<ge> 2\<close>, the similarity is
  \<open>min(0.95, minLen/maxLen*0.95 + 0.1)\<close>; if it is contained but not a prefix and
  \<open>minLen \<ge> 2\<close>, it is \<open>min(0.9, minLen/maxLen*0.9 + 0.05)\<close>; if \<open>minLen < 2\<close>, it is
  \<open>minLen/maxLen*0.8\<close>.
\<close>

theorem similarity_containment:
  assumes "a \<noteq> []" and "b \<noteq> []" and "a \<noteq> b"
    and n1: "n1 = normalizeName a" and n2: "n2 = normalizeName b"
    and ne: "n1 \<noteq> n2"
    and inc: "includes_js n1 n2 \<or> includes_js n2 n1"
    and minLen: "minLen = min (length n1) (length n2)"
    and maxLen: "maxLen = max (length n1) (length n2)"
    and shorter: "shorter = (if length n1 \<le> length n2 then n1 else n2)"
    and longer: "longer = (if length n1 \<le> length n2 then n2 else n1)"
  shows "(startsWith longer shorter \<and> minLen \<ge> 2 \<longrightarrow>
            similarity a b = min (95 / 100) (of_nat minLen / of_nat maxLen * (95 / 100) + 1 / 10))
       \<and> (\<not> startsWith longer shorter \<and> minLen \<ge> 2 \<longrightarrow>
            similarity a b = min (9 / 10) (of_nat minLen / of_nat maxLen * (9 / 10) + 5 / 100))
       \<and> (minLen < 2 \<longrightarrow> similarity a b = of_nat minLen / of_nat maxLen * (8 / 10))"
proof -
  have len: "length n1 \<noteq> length n2"
    using containment_lengths [OF ne inc] .
  have pre: "startsWith longer shorter \<longleftrightarrow> startsWith n1 n2 \<or> startsWith n2 n1"
  proof (cases "length n1 \<le> length n2")
    case True
    with len have "length n1 < length n2" by simp
    then have "\<not> prefix n2 n1" by (auto dest: prefix_length_le)
    with True show ?thesis by (simp add: shorter longer startsWith_def)
  next
    case False
    then have "\<not> prefix n1 n2" by (auto dest: prefix_length_le)
    with False show ?thesis by (simp add: shorter longer startsWith_def)
  qed
  have sim: "similarity a b =
       (if minLen \<ge> 2 then
          if startsWith n1 n2 \<or> startsWith n2 n1
          then min (95 / 100) (of_nat minLen / of_nat maxLen * (95 / 100) + 1 / 10)
          else min (9 / 10) (of_nat minLen / of_nat maxLen * (9 / 10) + 5 / 100)
        else of_nat minLen / of_nat maxLen * (8 / 10))"
    using assms(1-3) ne inc unfolding similarity_def Let_def n1 n2 minLen maxLen by simp
  show ?thesis unfolding sim pre by auto
qed

text \<open>
  The name U+9ED1 U+9F99 against U+9ED1 U+9F99 U+6C5F: a prefix of length 2 in a
  name of length 3, similarity 2/3 * 0.95 + 0.1 = 11/15.
\<close>

theorem similarity_containment_witness:
  "normalizeName [40657, 40857] = [40657, 40857]
   \<and> normalizeName [40657, 40857, 27743] = [40657, 40857, 27743]
   \<and> includes_js [40657, 40857, 27743] [40657, 40857]
   \<and> startsWith [40657, 40857, 27743] [40657, 40857]
   \<and> similarity [40657, 40857] [40657, 40857, 27743] = 11 / 15"
proof -
  have n: "normalizeName [40657, 40857] = [40657, 40857]"
          "normalizeName [40657, 40857, 27743] = [40657, 40857, 27743]"
    by (simp_all add: norm_eval)
  have i: "includes_js [40657, 40857, 27743] [40657, 40857]"
    by (simp add: includes_js_def sublist_code)
  have p: "startsWith [40657, 40857, 27743] [40657, 40857]"
    by (simp add: startsWith_def)
  have "similarity [40657, 40857] [40657, 40857, 27743] = 11 / 15"
    using similarity_containment [of "[40657, 40857]" "[40657, 40857, 27743]"
        "[40657, 40857]" "[40657, 40857, 27743]" 2 3 "[40657, 40857]" "[40657, 40857, 27743]"]
      n i p by simp
  with n i p show ?thesis by simp
qed

section \<open>Normalization applied twice\<close>

lemma trim_Nil: "trim [] = []"
  by (simp add: trim_def)

lemma dropWhile_last: "dropWhile P xs \<noteq> [] \<Longrightarrow> last (dropWhile P xs) = last xs"
  by (induction xs) (auto split: if_splits)

lemma trim_fixed:
  assumes "s \<noteq> []" and "\<not> is_space (hd s)" and "\<not> is_space (last s)"
  shows "trim s = s"
proof -
  have "dropWhile is_space s = s"
    using assms(1,2) by (cases s) auto
  moreover have "dropWhile is_space (rev s) = rev s"
    using assms(1,3) by (cases "rev s") (auto simp: hd_rev [symmetric])
  ultimately show ?thesis by (simp add: trim_def)
qed

lemma trim_ends:
  assumes "trim s \<noteq> []"
  shows "\<not> is_space (hd (trim s)) \<and> \<not> is_space (last (trim s))"
proof -
  let ?u = "dropWhile is_space s"
  let ?w = "dropWhile is_space (rev ?u)"
  have w: "?w \<noteq> []" using assms by (simp add: trim_def)
  then have u: "?u \<noteq> []" by (cases "?u") auto
  have "\<not> is_space (hd ?w)" using w by (rule hd_dropWhile)
  moreover have "\<not> is_space (hd ?u)" using u by (rule hd_dropWhile)
  moreover have "last ?w = hd ?u"
    using dropWhile_last [OF w] u by (simp add: last_rev)
  ultimately show ?thesis
    using w by (simp add: trim_def hd_rev last_rev)
qed

lemma trim_trim: "trim (trim s) = trim s"
proof (cases "trim s = []")
  case True
  then show ?thesis by (simp add: trim_Nil)
next
  case False
  with trim_ends [OF False] show ?thesis by (intro trim_fixed) auto
qed

lemma length_trim: "length (trim s) \<le> length s"
proof -
  have "length (dropWhile is_space (rev (dropWhile is_space s))) \<le> length (rev (dropWhile is_space s))"
    by (rule length_dropWhile_le)
  also have "\<dots> \<le> length s" by (simp add: length_dropWhile_le)
  finally show ?thesis by (simp add: trim_def)
qed

lemma length_replace_end: "length (replace_end t s) \<le> length s"
  by (simp add: replace_end_def)

lemma length_replace_end_less:
  "endsWith s t \<Longrightarrow> t \<noteq> [] \<Longrightarrow> length (replace_end t s) < length s"
  by (auto simp: replace_end_def endsWith_def suffix_def)

lemma length_strip_all: "length (foldl (\<lambda>s t. replace_end t s) s ts) \<le> length s"
proof (induction ts arbitrary: s)
  case Nil
  show ?case by simp
next
  case (Cons t ts)
  have "length (foldl (\<lambda>s t. replace_end t s) (replace_end t s) ts) \<le> length (replace_end t s)"
    by (rule Cons.IH)
  also have "\<dots> \<le> length s" by (rule length_replace_end)
  finally show ?case by simp
qed

lemma strip_all_none:
  "\<forall>t \<in> set ts. \<not> endsWith s t \<Longrightarrow> foldl (\<lambda>s t. replace_end t s) s ts = s"
  by (induction ts arbitrary: s) (auto simp: replace_end_def)

lemma strip_all_some:
  assumes "\<exists>t \<in> set ts. endsWith s t" and "\<forall>t \<in> set ts. t \<noteq> []"
  shows "length (foldl (\<lambda>s t. replace_end t s) s ts) < length s"
  using assms
proof (induction ts arbitrary: s)
  case Nil
  then show ?case by simp
next
  case (Cons t ts)
  show ?case
  proof (cases "endsWith s t")
    case True
    have "length (foldl (\<lambda>s t. replace_end t s) (replace_end t s) ts) \<le> length (replace_end t s)"
      by (rule length_strip_all)
    also have "\<dots> < length s"
      using True Cons.prems(2) by (intro length_replace_end_less) auto
    finally show ?thesis by simp
  next
    case False
    then have "replace_end t s = s" by (simp add: replace_end_def)
    moreover from False Cons.prems have "\<exists>t \<in> set ts. endsWith s t" by auto
    ultimately show ?thesis using Cons.IH [of s] Cons.prems(2) by simp
  qed
qed

lemma suffixes_nonempty: "\<forall>t \<in> set normalize_suffixes. t \<noteq> []"
  by (simp add: normalize_suffixes_def)

lemma normalizeName_trimmed: "trim (normalizeName x) = normalizeName x"
  by (simp add: normalizeName_def trim_Nil trim_trim)

text \<open>
  Claim C8, as amended.  Normalizing twice gives the same as normalizing once exactly
  when the name normalized once no longer ends with one of the listed suffixes.  Each
  \<open>replace\<close> runs once and in a fixed order, so the first call can leave a name that
  still ends with a suffix.
\<close>

theorem normalizeName_idempotent_iff:
  "normalizeName (normalizeName x) = normalizeName x
     \<longleftrightarrow> \<not> ends_with_listed_suffix (normalizeName x)"
proof
  assume idem: "normalizeName (normalizeName x) = normalizeName x"
  show "\<not> ends_with_listed_suffix (normalizeName x)"
  proof
    assume "ends_with_listed_suffix (normalizeName x)"
    then have ex: "\<exists>t \<in> set normalize_suffixes. endsWith (normalizeName x) t"
      by (simp add: ends_with_listed_suffix_def list_ex_iff)
    then have ne: "normalizeName x \<noteq> []"
      using suffixes_nonempty by (auto simp: endsWith_def)
    have "length (normalizeName (normalizeName x))
            \<le> length (foldl (\<lambda>s t. replace_end t s) (normalizeName x) normalize_suffixes)"
      using ne by (simp add: normalizeName_def [of "normalizeName x"] length_trim)
    also have "\<dots> < length (normalizeName x)"
      using ex suffixes_nonempty by (rule strip_all_some)
    finally show False using idem by simp
  qed
next
  assume "\<not> ends_with_listed_suffix (normalizeName x)"
  then have "\<forall>t \<in> set normalize_suffixes. \<not> endsWith (normalizeName x) t"
    by (simp add: ends_with_listed_suffix_def list_ex_iff)
  then have "foldl (\<lambda>s t. replace_end t s) (normalizeName x) normalize_suffixes = normalizeName x"
    by (rule strip_all_none)
  then show "normalizeName (normalizeName x) = normalizeName x"
    by (simp add: normalizeName_def [of "normalizeName x"] normalizeName_trimmed)
qed

text \<open>
  The name U+798F U+5EFA U+7701 loses its suffix in the first call and is then stable.
\<close>

theorem normalizeName_idempotent_iff_witness:
  "\<not> ends_with_listed_suffix (normalizeName [31119, 24314, 30465])
   \<and> normalizeName [31119, 24314, 30465] = [31119, 24314]
   \<and> normalizeName (normalizeName [31119, 24314, 30465]) = normalizeName [31119, 24314, 30465]"
proof -
  have n: "normalizeName [31119, 24314, 30465] = [31119, 24314]"
    by (simp add: norm_eval)
  have e: "\<not> ends_with_listed_suffix (normalizeName [31119, 24314, 30465])"
    unfolding n by (simp add: ends_with_listed_suffix_def normalize_suffixes_def endsWith_def suffix_to_prefix)
  from e n show ?thesis
    using normalizeName_idempotent_iff [of "[31119, 24314, 30465]"] by blast
qed

text \<open>
  Claim C8 as stated fails: the name U+5E02 U+533A loses only its last character, and
  what is left is a suffix itself.
\<close>

theorem normalizeName_not_idempotent:
  "normalizeName [24066, 21306] = [24066] \<and> normalizeName [24066] = []
   \<and> normalizeName (normalizeName [24066, 21306]) \<noteq> normalizeName [24066, 21306]"
  by (simp add: norm_eval)

section \<open>The loop over the slices and the final sort\<close>

lemma batch_loop_eq: "batch_loop f all i results = results @ map f (drop i all)"
proof (induction f all i results rule: batch_loop.induct)
  case (1 f all i results)
  show ?case
  proof (cases "i < length all")
    case True
    have "take batchSize (drop i all) @ drop (i + batchSize) all = drop i all"
      by (metis append_take_drop_id drop_drop add.commute)
    then have "map f (take batchSize (drop i all)) @ map f (drop (i + batchSize) all) = map f (drop i all)"
      by (metis map_append)
    with True "1.IH" show ?thesis
      by (subst batch_loop.simps) (simp add: slice_js_def)
  next
    case False
    then show ?thesis by (subst batch_loop.simps) simp
  qed
qed

lemma mset_insort_js: "mset (insort_js cmp x ys) = add_mset x (mset ys)"
  by (induction ys) auto

lemma mset_sort_js: "mset (sort_js cmp xs) = mset xs"
  by (induction xs) (auto simp: sort_js_def mset_insort_js)

lemma set_insort_js: "set (insort_js cmp x ys) = insert x (set ys)"
  by (induction ys) auto

lemma set_sort_js: "set (sort_js cmp xs) = set xs"
  by (metis mset_sort_js set_mset_mset)

lemma length_sort_js: "length (sort_js cmp xs) = length xs"
  by (metis mset_sort_js size_mset)

lemma sorted_insort_js:
  assumes total: "\<And>a b. cmp a b \<le> 0 \<or> cmp b a \<le> 0"
    and trans: "\<And>a b c. cmp a b \<le> 0 \<Longrightarrow> cmp b c \<le> 0 \<Longrightarrow> cmp a c \<le> 0"
  shows "sorted_wrt (\<lambda>a b. cmp a b \<le> 0) ys \<Longrightarrow> sorted_wrt (\<lambda>a b. cmp a b \<le> 0) (insort_js cmp x ys)"
proof (induction ys)
  case Nil
  show ?case by simp
next
  case (Cons y ys)
  show ?case
  proof (cases "cmp x y \<le> 0")
    case True
    with Cons.prems show ?thesis by (auto intro: trans)
  next
    case False
    then have "cmp y x \<le> 0" using total [of x y] by simp
    with False Cons show ?thesis by (auto simp: set_insort_js)
  qed
qed

lemma sorted_sort_js:
  assumes "\<And>a b. cmp a b \<le> 0 \<or> cmp b a \<le> 0"
    and "\<And>a b c. cmp a b \<le> 0 \<Longrightarrow> cmp b c \<le> 0 \<Longrightarrow> cmp a c \<le> 0"
  shows "sorted_wrt (\<lambda>a b. cmp a b \<le> 0) (sort_js cmp xs)"
  by (induction xs) (auto simp: sort_js_def intro: sorted_insort_js [OF assms])

text \<open>
  The comparator of \<open>batchMatch\<close> is the lexicographic order of the three reference
  names, and that order is total and transitive when \<open>lc\<close> is consistent.
\<close>

lemma compare_results_lex3:
  "compare_results lc a b \<le> 0 \<longleftrightarrow> lex3_le lc (ref_names a) (ref_names b)"
  by (auto simp: compare_results_def ref_names_def Let_def)

lemma cmp_facts:
  assumes "consistent_comparator lc"
  shows sw: "(lc a b < 0) = (lc b a > 0)"
    and tr: "lc a b \<le> 0 \<Longrightarrow> lc b c \<le> 0 \<Longrightarrow> lc a c \<le> 0"
  using assms unfolding consistent_comparator_def by blast+

lemma cmp_lt1:
  assumes c: "consistent_comparator lc" and "lc a b < 0" and "lc b c \<le> 0"
  shows "lc a c < 0"
proof (rule ccontr)
  assume "\<not> lc a c < 0"
  then have "lc c a \<le> 0" using sw [OF c, of c a] sw [OF c, of a c] by linarith
  with assms(3) have "lc b a \<le> 0" by (rule tr [OF c])
  then show False using sw [OF c, of a b] assms(2) by linarith
qed

lemma cmp_lt2:
  assumes c: "consistent_comparator lc" and "lc a b \<le> 0" and "lc b c < 0"
  shows "lc a c < 0"
proof (rule ccontr)
  assume "\<not> lc a c < 0"
  then have "lc c a \<le> 0" using sw [OF c, of c a] sw [OF c, of a c] by linarith
  then have "lc c b \<le> 0" using assms(2) by (rule tr [OF c])
  then show False using sw [OF c, of b c] assms(3) by linarith
qed

lemma cmp_eq:
  assumes c: "consistent_comparator lc" and "lc a b = 0" and "lc b c = 0"
  shows "lc a c = 0"
proof -
  have "lc a c \<le> 0" using assms(2,3) by (intro tr [OF c, of a b c]) simp_all
  moreover have "lc c b \<le> 0" "lc b a \<le> 0"
    using sw [OF c, of b c] sw [OF c, of a b] assms(2,3) by linarith+
  then have "lc c a \<le> 0" by (rule tr [OF c])
  then have "\<not> lc a c < 0" using sw [OF c, of a c] by linarith
  ultimately show ?thesis by linarith
qed

lemma lex3_total:
  assumes c: "consistent_comparator lc"
  shows "lex3_le lc s t \<or> lex3_le lc t s"
proof -
  obtain p1 c1 d1 where s: "s = (p1, c1, d1)" by (cases s) auto
  obtain p2 c2 d2 where t: "t = (p2, c2, d2)" by (cases t) auto
  show ?thesis unfolding s t lex3_le.simps
    using sw [OF c, of p1 p2] sw [OF c, of p2 p1] sw [OF c, of c1 c2] sw [OF c, of c2 c1]
      sw [OF c, of d1 d2] sw [OF c, of d2 d1]
    by linarith
qed

lemma lex3_trans:
  assumes c: "consistent_comparator lc" and st: "lex3_le lc s t" and tu: "lex3_le lc t u"
  shows "lex3_le lc s u"
proof -
  obtain p1 c1 d1 where s: "s = (p1, c1, d1)" by (cases s) auto
  obtain p2 c2 d2 where t: "t = (p2, c2, d2)" by (cases t) auto
  obtain p3 c3 d3 where u: "u = (p3, c3, d3)" by (cases u) auto
  note l1 = cmp_lt1 [OF c] and l2 = cmp_lt2 [OF c] and e = cmp_eq [OF c] and tr' = tr [OF c]
  from st tu show ?thesis unfolding s t u lex3_le.simps
    by (elim disjE conjE)
       (use l1 [of p1 p2 p3] l2 [of p1 p2 p3] e [of p1 p2 p3]
            l1 [of c1 c2 c3] l2 [of c1 c2 c3] e [of c1 c2 c3] tr' [of d1 d2 d3] in simp_all)
qed

lemma codeUnitCompare_swap: "(codeUnitCompare a b < 0) = (codeUnitCompare b a > 0)"
  by (induction a b rule: codeUnitCompare.induct) auto

lemma codeUnitCompare_trans:
  "codeUnitCompare a b \<le> 0 \<Longrightarrow> codeUnitCompare b c \<le> 0 \<Longrightarrow> codeUnitCompare a c \<le> 0"
proof (induction a arbitrary: b c)
  case Nil
  show ?case by (cases c) simp_all
next
  case (Cons x xs)
  from Cons.prems(1) obtain y ys where b: "b = y # ys" by (cases b) auto
  from Cons.prems(2) b obtain z zs where c: "c = z # zs" by (cases c) auto
  from Cons.prems have xy: "x \<le> y" and yz: "y \<le> z"
    unfolding b c by (auto split: if_splits)
  show ?case
  proof (cases "x < z")
    case True
    then show ?thesis unfolding c by simp
  next
    case False
    with xy yz have "x = y" "y = z" by auto
    with Cons.prems have "codeUnitCompare xs ys \<le> 0" "codeUnitCompare ys zs \<le> 0"
      unfolding b c by auto
    then have "codeUnitCompare xs zs \<le> 0" by (rule Cons.IH)
    with \<open>x = y\<close> \<open>y = z\<close> show ?thesis unfolding c by simp
  qed
qed

lemma codeUnitCompare_consistent: "consistent_comparator codeUnitCompare"
  unfolding consistent_comparator_def
  using codeUnitCompare_swap codeUnitCompare_trans by blast

text \<open>
  \<open>batchMatch\<close> on a new matcher and on one whose cache is filled: the slices are
  invisible, the result is the sort of the per-address results in walk order.
\<close>

lemma generate_new:
  "generateAllJunboAddresses (new_AddressMatcher data)
     = (walk_catalog data, \<lparr>addressData = data, cachedJunboAddresses = Some (walk_catalog data)\<rparr>)"
  by (simp add: generateAllJunboAddresses_def new_AddressMatcher_def Let_def)

lemma generate_cached:
  "generateAllJunboAddresses \<lparr>addressData = data, cachedJunboAddresses = Some xs\<rparr>
     = (xs, \<lparr>addressData = data, cachedJunboAddresses = Some xs\<rparr>)"
  by (simp add: generateAllJunboAddresses_def)

lemma batchMatch_new:
  "batchMatch lc (new_AddressMatcher data) operInputs
     = (sort_js (compare_results lc)
          (map (\<lambda>j. matchSingleJunboAddress j (build_indexes operInputs)) (walk_catalog data)),
        \<lparr>addressData = data, cachedJunboAddresses = Some (walk_catalog data)\<rparr>)"
  by (simp add: batchMatch_def generate_new batch_loop_eq Let_def)

lemma batchMatch_warm:
  "batchMatch lc \<lparr>addressData = data, cachedJunboAddresses = Some (walk_catalog data)\<rparr> operInputs
     = (sort_js (compare_results lc)
          (map (\<lambda>j. matchSingleJunboAddress j (build_indexes operInputs)) (walk_catalog data)),
        \<lparr>addressData = data, cachedJunboAddresses = Some (walk_catalog data)\<rparr>)"
  by (simp add: batchMatch_def generate_cached batch_loop_eq Let_def)

lemma ref_names_matchSingle: "ref_names (matchSingleJunboAddress j ix) = junbo_names j"
  by (simp add: ref_names_def junbo_names_def matchSingleJunboAddress_def Let_def)

lemma junbo_fields_matchSingle:
  "junbo_province_name (r_output (matchSingleJunboAddress j ix)) = provinceName j"
  "junbo_city_name (r_output (matchSingleJunboAddress j ix)) = cityName j"
  "junbo_district_name (r_output (matchSingleJunboAddress j ix)) = districtName j"
  by (simp_all add: matchSingleJunboAddress_def Let_def)

lemma matchSingle_in_batch:
  assumes "j \<in> set (walk_catalog data)"
  shows "matchSingleJunboAddress j (build_indexes operInputs)
           \<in> set (fst (batchMatch lc (new_AddressMatcher data) operInputs))"
  using assms by (simp add: batchMatch_new set_sort_js)

lemma sorted_example:
  "map ref_names (fst (batchMatch codeUnitCompare (new_AddressMatcher example_catalog) [input_codes_only]))
     = [junbo_names nangang, junbo_names daoli]"
  by (simp add: batchMatch_new walk_example sort_js_def compare_results_def
      junbo_fields_matchSingle example_fields nangang_fields ref_names_matchSingle)

section \<open>Completeness of the batch result\<close>

text \<open>
  Claim C2.  For every catalog and every list of input records, \<open>batchMatch\<close> returns
  exactly one output record per composite address that the three-level walk of the
  catalog produces (entries that are not strings are skipped by the walk): the output has
  the length of the walk, it is, as a multiset, the image of the walk under the
  per-address match, and the reference names of the output are those of the walk, each
  as often as the walk yields it, whether or not it matched.
\<close>

theorem batchMatch_complete:
  "length (fst (batchMatch lc (new_AddressMatcher data) operInputs)) = length (walk_catalog data)
   \<and> mset (fst (batchMatch lc (new_AddressMatcher data) operInputs))
       = image_mset (\<lambda>j. matchSingleJunboAddress j (build_indexes operInputs))
           (mset (walk_catalog data))
   \<and> mset (map ref_names (fst (batchMatch lc (new_AddressMatcher data) operInputs)))
       = mset (map junbo_names (walk_catalog data))"
proof -
  let ?f = "\<lambda>j. matchSingleJunboAddress j (build_indexes operInputs)"
  have out: "fst (batchMatch lc (new_AddressMatcher data) operInputs)
               = sort_js (compare_results lc) (map ?f (walk_catalog data))"
    by (simp add: batchMatch_new)
  have m: "mset (fst (batchMatch lc (new_AddressMatcher data) operInputs))
             = image_mset ?f (mset (walk_catalog data))"
    unfolding out by (simp add: mset_sort_js)
  have "mset (map ref_names (fst (batchMatch lc (new_AddressMatcher data) operInputs)))
          = image_mset ref_names (image_mset ?f (mset (walk_catalog data)))"
    using m by (metis mset_map)
  also have "\<dots> = mset (map junbo_names (walk_catalog data))"
    by (simp add: image_mset.compositionality comp_def ref_names_matchSingle)
  finally have n: "mset (map ref_names (fst (batchMatch lc (new_AddressMatcher data) operInputs)))
          = mset (map junbo_names (walk_catalog data))" .
  have "length (fst (batchMatch lc (new_AddressMatcher data) operInputs)) = length (walk_catalog data)"
    unfolding out by (simp add: length_sort_js)
  with m n show ?thesis by blast
qed

text \<open>
  On the example catalog the walk yields two addresses and the batch two records.
\<close>

theorem batchMatch_complete_witness:
  "walk_catalog example_catalog = [daoli, nangang]
   \<and> length (fst (batchMatch codeUnitCompare (new_AddressMatcher example_catalog)
                  [input_codes_only])) = 2
   \<and> mset (map ref_names (fst (batchMatch codeUnitCompare (new_AddressMatcher example_catalog)
                  [input_codes_only])))
       = {#junbo_names daoli, junbo_names nangang#}"
proof -
  let ?out = "fst (batchMatch codeUnitCompare (new_AddressMatcher example_catalog) [input_codes_only])"
  note t = batchMatch_complete [of codeUnitCompare example_catalog "[input_codes_only]"]
  from t have "length ?out = length (walk_catalog example_catalog)" by blast
  then have l: "length ?out = 2" by (simp add: walk_example)
  from t have "mset (map ref_names ?out) = mset (map junbo_names (walk_catalog example_catalog))"
    by blast
  then have m: "mset (map ref_names ?out) = {#junbo_names daoli, junbo_names nangang#}"
    by (simp add: walk_example)
  from l m walk_example show ?thesis by blast
qed

section \<open>Order of the batch result\<close>

text \<open>
  Claim C7.  For a fixed catalog and input list, with a consistent \<open>localeCompare\<close>,
  the output of \<open>batchMatch\<close> is ordered lexicographically by the triple (reference
  province name, reference city name, reference district name); a second invocation on
  the same matcher, which reads the cached address list, returns the same list as the
  first; and the list is the sort of the per-address results, so the slices of 100 in
  which the addresses are processed leave no trace.
\<close>

theorem batchMatch_order:
  assumes c: "consistent_comparator lc"
  shows "sorted_wrt (lex3_le lc) (map ref_names (fst (batchMatch lc (new_AddressMatcher data) operInputs)))
     \<and> fst (batchMatch lc (snd (batchMatch lc (new_AddressMatcher data) earlier)) operInputs)
         = fst (batchMatch lc (new_AddressMatcher data) operInputs)
     \<and> fst (batchMatch lc (new_AddressMatcher data) operInputs)
         = sort_js (compare_results lc)
             (map (\<lambda>j. matchSingleJunboAddress j (build_indexes operInputs)) (walk_catalog data))"
proof -
  let ?out = "fst (batchMatch lc (new_AddressMatcher data) operInputs)"
  have out: "?out = sort_js (compare_results lc)
             (map (\<lambda>j. matchSingleJunboAddress j (build_indexes operInputs)) (walk_catalog data))"
    by (simp add: batchMatch_new)
  have total: "\<And>a b. compare_results lc a b \<le> 0 \<or> compare_results lc b a \<le> 0"
    unfolding compare_results_lex3 by (rule lex3_total [OF c])
  have trans: "\<And>a b d. compare_results lc a b \<le> 0 \<Longrightarrow> compare_results lc b d \<le> 0
                 \<Longrightarrow> compare_results lc a d \<le> 0"
    unfolding compare_results_lex3 by (rule lex3_trans [OF c])
  have "sorted_wrt (\<lambda>a b. compare_results lc a b \<le> 0) ?out"
    unfolding out by (rule sorted_sort_js [OF total trans])
  then have s: "sorted_wrt (lex3_le lc) (map ref_names ?out)"
    by (simp add: sorted_wrt_map compare_results_lex3)
  have "fst (batchMatch lc (snd (batchMatch lc (new_AddressMatcher data) earlier)) operInputs) = ?out"
    by (simp add: batchMatch_new batchMatch_warm)
  with s out show ?thesis by blast
qed

text \<open>
  With the code-unit order as comparator the two districts of the example catalog come
  out in the reverse of the walk order.
\<close>

theorem batchMatch_order_witness:
  "consistent_comparator codeUnitCompare
   \<and> walk_catalog example_catalog = [daoli, nangang]
   \<and> map ref_names (fst (batchMatch codeUnitCompare (new_AddressMatcher example_catalog)
                            [input_codes_only]))
       = [junbo_names nangang, junbo_names daoli]
   \<and> sorted_wrt (lex3_le codeUnitCompare)
        (map ref_names (fst (batchMatch codeUnitCompare (new_AddressMatcher example_catalog)
                               [input_codes_only])))
   \<and> fst (batchMatch codeUnitCompare
            (snd (batchMatch codeUnitCompare (new_AddressMatcher example_catalog) []))
            [input_codes_only])
       = fst (batchMatch codeUnitCompare (new_AddressMatcher example_catalog) [input_codes_only])"
  using batchMatch_order [OF codeUnitCompare_consistent, of example_catalog "[input_codes_only]" "[]"]
    codeUnitCompare_consistent walk_example sorted_example
  by blast

section \<open>Code match supremacy\<close>

text \<open>
  The full-code index holds a record under a key exactly when some input record with
  three non-empty codes has that key.
\<close>

lemma byCode_index_input:
  "operInputsByCode (index_input ix r) k
     = (if truthy (op_provinceCode (snd r)) \<and> truthy (op_cityCode (snd r))
           \<and> truthy (op_districtCode (snd r))
           \<and> code_key (op_provinceCode (snd r)) (op_cityCode (snd r)) (op_districtCode (snd r)) = k
        then Some r else operInputsByCode ix k)"
  by (simp add: index_input_def Let_def)

lemma byCode_foldl:
  "operInputsByCode (foldl index_input ix rs) k = None
     \<longleftrightarrow> operInputsByCode ix k = None
         \<and> \<not> (\<exists>r \<in> set rs. truthy (op_provinceCode (snd r)) \<and> truthy (op_cityCode (snd r))
                 \<and> truthy (op_districtCode (snd r))
                 \<and> code_key (op_provinceCode (snd r)) (op_cityCode (snd r))
                              (op_districtCode (snd r)) = k)"
proof (induction rs arbitrary: ix)
  case Nil
  show ?case by simp
next
  case (Cons r rs)
  show ?case
    unfolding foldl_Cons Cons.IH byCode_index_input by auto
qed

lemma snd_with_identity: "snd ` set (with_identity operInputs) = set operInputs"
proof -
  have "map snd (with_identity operInputs) = operInputs"
    by (simp add: with_identity_def)
  then show ?thesis by (metis set_map)
qed

lemma byCode_build_indexes:
  "operInputsByCode (build_indexes operInputs) k = None
     \<longleftrightarrow> \<not> (\<exists>inp \<in> set operInputs. truthy (op_provinceCode inp) \<and> truthy (op_cityCode inp)
                 \<and> truthy (op_districtCode inp)
                 \<and> code_key (op_provinceCode inp) (op_cityCode inp) (op_districtCode inp) = k)"
proof -
  have "(\<exists>r \<in> set (with_identity operInputs). truthy (op_provinceCode (snd r)) \<and> truthy (op_cityCode (snd r))
                 \<and> truthy (op_districtCode (snd r))
                 \<and> code_key (op_provinceCode (snd r)) (op_cityCode (snd r))
                              (op_districtCode (snd r)) = k)
     \<longleftrightarrow> (\<exists>inp \<in> snd ` set (with_identity operInputs). truthy (op_provinceCode inp) \<and> truthy (op_cityCode inp)
                 \<and> truthy (op_districtCode inp)
                 \<and> code_key (op_provinceCode inp) (op_cityCode inp) (op_districtCode inp) = k)"
    by (simp only: bex_simps(7))
  then show ?thesis
    unfolding build_indexes_def byCode_foldl snd_with_identity
    by (simp add: empty_indexes_def)
qed

lemma matchSingle_code_hit:
  assumes "operInputsByCode ix (code_key (provinceCode j) (cityCode j) (districtCode j)) = Some r"
  shows "match_score (r_output (matchSingleJunboAddress j ix)) = 1
       \<and> match_method (r_output (matchSingleJunboAddress j ix)) = Code
       \<and> confidence (r_output (matchSingleJunboAddress j ix)) = High
       \<and> \<not> needsConfirmation (matchSingleJunboAddress j ix)"
  using assms by (simp add: matchSingleJunboAddress_def Let_def)

text \<open>
  Claim C1, as amended.  For every composite address of the walk whose three codes are
  all non-empty and equal to the three codes of some input record, the output record of
  that address, which \<open>batchMatch\<close> returns, has score 1, method \<open>code\<close> and
  confidence \<open>high\<close>, whatever the other input records are.
\<close>

theorem code_match_supremacy:
  assumes j: "j \<in> set (walk_catalog data)"
    and inp: "inp \<in> set operInputs"
    and same: "op_provinceCode inp = provinceCode j" "op_cityCode inp = cityCode j"
              "op_districtCode inp = districtCode j"
    and nonempty: "truthy (provinceCode j)" "truthy (cityCode j)" "truthy (districtCode j)"
  shows "matchSingleJunboAddress j (build_indexes operInputs)
           \<in> set (fst (batchMatch lc (new_AddressMatcher data) operInputs))
       \<and> ref_names (matchSingleJunboAddress j (build_indexes operInputs)) = junbo_names j
       \<and> match_score (r_output (matchSingleJunboAddress j (build_indexes operInputs))) = 1
       \<and> match_method (r_output (matchSingleJunboAddress j (build_indexes operInputs))) = Code
       \<and> confidence (r_output (matchSingleJunboAddress j (build_indexes operInputs))) = High"
proof -
  let ?k = "code_key (provinceCode j) (cityCode j) (districtCode j)"
  have "\<exists>x \<in> set operInputs. truthy (op_provinceCode x) \<and> truthy (op_cityCode x)
            \<and> truthy (op_districtCode x)
            \<and> code_key (op_provinceCode x) (op_cityCode x) (op_districtCode x) = ?k"
    using inp same nonempty by (intro bexI [of _ inp]) simp_all
  then have "operInputsByCode (build_indexes operInputs) ?k \<noteq> None"
    unfolding byCode_build_indexes by simp
  then obtain r where "operInputsByCode (build_indexes operInputs) ?k = Some r" by blast
  from matchSingle_code_hit [OF this] matchSingle_in_batch [OF j] ref_names_matchSingle
  show ?thesis by blast
qed

text \<open>
  The first district of the example catalog, with an input record that scores 39/40 by
  the staged scoring and one that carries the three codes.
\<close>

theorem code_match_supremacy_witness:
  "daoli \<in> set (walk_catalog example_catalog)
   \<and> input_codes_only \<in> set [input_near_district, input_codes_only]
   \<and> op_provinceCode input_codes_only = provinceCode daoli
   \<and> op_cityCode input_codes_only = cityCode daoli
   \<and> op_districtCode input_codes_only = districtCode daoli
   \<and> truthy (provinceCode daoli) \<and> truthy (cityCode daoli) \<and> truthy (districtCode daoli)
   \<and> result_summary (matchSingleJunboAddress daoli
         (build_indexes [input_near_district, input_codes_only])) = (1, Code, High)
   \<and> matchSingleJunboAddress daoli (build_indexes [input_near_district, input_codes_only])
         \<in> set (fst (batchMatch codeUnitCompare (new_AddressMatcher example_catalog)
                    [input_near_district, input_codes_only]))"
proof -
  have j: "daoli \<in> set (walk_catalog example_catalog)"
    by (simp add: walk_example)
  have i: "input_codes_only \<in> set [input_near_district, input_codes_only]"
    by simp
  have s: "op_provinceCode input_codes_only = provinceCode daoli"
    "op_cityCode input_codes_only = cityCode daoli"
    "op_districtCode input_codes_only = districtCode daoli"
    by (simp_all add: example_fields)
  have n: "truthy (provinceCode daoli)" "truthy (cityCode daoli)" "truthy (districtCode daoli)"
    by (simp_all add: example_fields)
  from code_match_supremacy [OF j i s n, of codeUnitCompare] j i s n
  show ?thesis by (simp add: result_summary_def)
qed

lemma score_empty_code:
  "score_candidate address_empty_code input_empty_code
     = \<lparr>sc_score = 1 / 2, sc_method = Code, provinceMatched = True, cityMatched = True,
        sc_districtExactMatch = False, sc_districtFuzzyMatch = False\<rparr>"
  by (simp add: score_candidate_def province_level_def city_level_def district_level_def
      address_empty_code_def input_empty_code_def getNormalized_def norm_eval)

lemma candidates_empty_code:
  "getCandidateInputs address_empty_code (build_indexes [input_empty_code]) = [(0, input_empty_code)]"
  by (simp add: candidate_eval index_eval norm_eval input_empty_code_fields address_empty_code_fields)

lemma single_empty_code:
  "result_summary (matchSingleJunboAddress address_empty_code (build_indexes [input_empty_code]))
     = (1 / 2, Code, Low)"
proof -
  have miss: "operInputsByCode (build_indexes [input_empty_code]) k = None" for k
    unfolding byCode_build_indexes by (simp add: input_empty_code_fields)
  have "matchOperAddressFromJunboOptimized address_empty_code [(0, input_empty_code)]
          = \<lparr>matched = Some (0, input_empty_code), matchScore = 1 / 2, matchMethod = Code,
             matchConfidence = Low\<rparr>"
    by (simp add: matchOperAddressFromJunboOptimized_def score_candidates_def to_candidate_def
        score_empty_code select_best_def reduce_best_def confidence_of_def)
  then show ?thesis
    by (simp add: result_summary_def matchSingleJunboAddress_def miss candidates_empty_code)
qed

text \<open>
  Claim C1 as stated fails when a code of the tuple is the empty string: the loop that
  builds the full-code index skips a record with an empty code, so the address goes
  through the staged scoring, where an empty code never matches.  The record with the
  same three codes gets 0.25 + 0.25, method \<open>code\<close>, confidence \<open>low\<close>.
\<close>

theorem code_tuple_with_empty_code:
  "walk_catalog catalog_empty_code = [address_empty_code]
   \<and> op_provinceCode input_empty_code = provinceCode address_empty_code
   \<and> op_cityCode input_empty_code = cityCode address_empty_code
   \<and> op_districtCode input_empty_code = districtCode address_empty_code
   \<and> map result_summary
         (fst (batchMatch codeUnitCompare (new_AddressMatcher catalog_empty_code) [input_empty_code]))
       = [(1 / 2, Code, Low)]"
  by (simp add: walk_empty_code batchMatch_new sort_js_def single_empty_code
      input_empty_code_fields address_empty_code_fields)

section \<open>No candidate above zero\<close>

lemma score_candidates_none:
  "\<forall>r \<in> set cs. \<not> sc_score (score_candidate j (snd r)) > 0 \<Longrightarrow> score_candidates j cs = []"
  by (induction cs) (simp_all add: score_candidates_def to_candidate_def Let_def)

lemma matchSingle_nothing:
  assumes "operInputsByCode ix (code_key (provinceCode j) (cityCode j) (districtCode j)) = None"
    and "score_candidates j (getCandidateInputs j ix) = []"
  shows "r_output (matchSingleJunboAddress j ix)
           = \<lparr>junbo_province_name = provinceName j, oper_province_name = [],
              oper_province_code = [], junbo_city_name = cityName j, oper_city_name = [],
              oper_city_code = [], junbo_district_name = districtName j,
              oper_district_name = [], oper_district_code = [], match_score = 0,
              match_method = NoMethod, confidence = NoConfidence\<rparr>
       \<and> needsConfirmation (matchSingleJunboAddress j ix)"
  using assms
  by (simp add: matchSingleJunboAddress_def matchOperAddressFromJunboOptimized_def
      select_best_def confidence_of_def field_or_empty_def)

text \<open>
  Claim C9.  Take a composite address of the walk for which no input record scores
  above 0: none is found under the address's code key (such a record is returned with
  score 1) and none of the candidates gathered from the indexes gets a staged score above
  0.  Then \<open>batchMatch\<close> returns an output record for the address, with confidence
  \<open>none\<close>, score 0, method \<open>none\<close>, the six fields of the matched input record
  empty, and \<open>needsConfirmation\<close> true.  The model has no error value: \<open>batchMatch\<close>
  returns a list for every typed input.
\<close>

theorem no_candidate_gives_none:
  assumes j: "j \<in> set (walk_catalog data)"
    and nokey: "\<not> (\<exists>inp \<in> set operInputs.
                 truthy (op_provinceCode inp) \<and> truthy (op_cityCode inp)
                 \<and> truthy (op_districtCode inp)
                 \<and> code_key (op_provinceCode inp) (op_cityCode inp) (op_districtCode inp)
                     = code_key (provinceCode j) (cityCode j) (districtCode j))"
    and zero: "\<forall>r \<in> set (getCandidateInputs j (build_indexes operInputs)).
                 \<not> sc_score (score_candidate j (snd r)) > 0"
  shows "matchSingleJunboAddress j (build_indexes operInputs)
           \<in> set (fst (batchMatch lc (new_AddressMatcher data) operInputs))
       \<and> r_output (matchSingleJunboAddress j (build_indexes operInputs))
           = \<lparr>junbo_province_name = provinceName j, oper_province_name = [],
              oper_province_code = [], junbo_city_name = cityName j, oper_city_name = [],
              oper_city_code = [], junbo_district_name = districtName j,
              oper_district_name = [], oper_district_code = [], match_score = 0,
              match_method = NoMethod, confidence = NoConfidence\<rparr>
       \<and> needsConfirmation (matchSingleJunboAddress j (build_indexes operInputs))"
proof -
  have miss: "operInputsByCode (build_indexes operInputs)
                (code_key (provinceCode j) (cityCode j) (districtCode j)) = None"
    unfolding byCode_build_indexes using nokey .
  have none: "score_candidates j (getCandidateInputs j (build_indexes operInputs)) = []"
    using zero by (rule score_candidates_none)
  from matchSingle_nothing [OF miss none] matchSingle_in_batch [OF j]
  show ?thesis by blast
qed

lemma candidates_other_province:
  "getCandidateInputs daoli (build_indexes [input_other_province]) = [(0, input_other_province)]"
  by (simp add: candidate_eval index_eval norm_eval example_fields)

lemma score_other_province:
  "sc_score (score_candidate daoli input_other_province) = 0"
  by (simp add: score_candidate_def province_level_def example_fields normalized_examples)

text \<open>
  An input record of another province that carries the district code of the address is
  gathered as a candidate and scores 0.
\<close>

theorem no_candidate_gives_none_witness:
  "daoli \<in> set (walk_catalog example_catalog)
   \<and> getCandidateInputs daoli (build_indexes [input_other_province]) = [(0, input_other_province)]
   \<and> sc_score (score_candidate daoli input_other_province) = 0
   \<and> confidence (r_output (matchSingleJunboAddress daoli (build_indexes [input_other_province])))
       = NoConfidence
   \<and> oper_district_code (r_output (matchSingleJunboAddress daoli (build_indexes [input_other_province])))
       = []
   \<and> needsConfirmation (matchSingleJunboAddress daoli (build_indexes [input_other_province]))"
proof -
  have j: "daoli \<in> set (walk_catalog example_catalog)"
    by (simp add: walk_example)
  have k: "\<not> (\<exists>inp \<in> set [input_other_province].
                 truthy (op_provinceCode inp) \<and> truthy (op_cityCode inp)
                 \<and> truthy (op_districtCode inp)
                 \<and> code_key (op_provinceCode inp) (op_cityCode inp) (op_districtCode inp)
                     = code_key (provinceCode daoli) (cityCode daoli) (districtCode daoli))"
    by (simp add: example_fields code_key_def)
  have z: "\<forall>r \<in> set (getCandidateInputs daoli (build_indexes [input_other_province])).
                 \<not> sc_score (score_candidate daoli (snd r)) > 0"
    by (simp add: candidates_other_province score_other_province)
  from no_candidate_gives_none [OF j k z, of codeUnitCompare] j
  show ?thesis by (simp add: candidates_other_province score_other_province)
qed

section \<open>Acceptance thresholds of the similarity score\<close>

text \<open>
  Claim C5, as amended.  In the staged scoring of the batch reverse match, when a level
  is scored by \<open>similarity\<close>, the match is accepted exactly when the similarity is at
  least 0.7 at the province level, 0.7 at the city level and 0.85 at the district level;
  an accepted match adds the level weight times the similarity, and below the threshold
  the level leaves the score and the method unchanged and sets no flag.
\<close>

theorem similarity_thresholds:
  "(province_by_similarity j operInput \<longrightarrow>
      province_level j operInput score method =
        (if similarity (getNormalized (op_provinceName operInput)) (getNormalized (provinceName j))
              \<ge> 7 / 10
         then (score + 25 / 100 * similarity (getNormalized (op_provinceName operInput))
                                             (getNormalized (provinceName j)),
               (if method = NoMethod then Fuzzy else method), True)
         else (score, method, False)))
   \<and> (city_by_similarity j operInput \<longrightarrow>
      city_level j operInput score method =
        (if similarity (getNormalized (op_cityName operInput)) (getNormalized (cityName j))
              \<ge> 7 / 10
         then (score + 25 / 100 * similarity (getNormalized (op_cityName operInput))
                                             (getNormalized (cityName j)),
               method, True)
         else (score, method, False)))
   \<and> (district_by_similarity j operInput \<longrightarrow>
      district_level j operInput score method =
        (if similarity (getNormalized (op_districtName operInput)) (getNormalized (districtName j))
              \<ge> 85 / 100
         then (score + 5 / 10 * similarity (getNormalized (op_districtName operInput))
                                           (getNormalized (districtName j)),
               method, False, True)
         else (score, method, False, False)))"
proof (intro conjI impI)
  assume h: "province_by_similarity j operInput"
  then have "truthy (op_provinceName operInput)"
    by (auto simp: province_by_similarity_def getNormalized_def)
  with h show "province_level j operInput score method =
        (if similarity (getNormalized (op_provinceName operInput)) (getNormalized (provinceName j))
              \<ge> 7 / 10
         then (score + 25 / 100 * similarity (getNormalized (op_provinceName operInput))
                                             (getNormalized (provinceName j)),
               (if method = NoMethod then Fuzzy else method), True)
         else (score, method, False))"
    unfolding province_by_similarity_def province_level_def Let_def by auto
next
  assume h: "city_by_similarity j operInput"
  then have "truthy (op_cityName operInput)"
    by (auto simp: city_by_similarity_def getNormalized_def)
  with h show "city_level j operInput score method =
        (if similarity (getNormalized (op_cityName operInput)) (getNormalized (cityName j))
              \<ge> 7 / 10
         then (score + 25 / 100 * similarity (getNormalized (op_cityName operInput))
                                             (getNormalized (cityName j)),
               method, True)
         else (score, method, False))"
    unfolding city_by_similarity_def city_level_def Let_def by auto
next
  assume h: "district_by_similarity j operInput"
  then have "truthy (op_districtName operInput)"
    by (auto simp: district_by_similarity_def getNormalized_def)
  with h show "district_level j operInput score method =
        (if similarity (getNormalized (op_districtName operInput)) (getNormalized (districtName j))
              \<ge> 85 / 100
         then (score + 5 / 10 * similarity (getNormalized (op_districtName operInput))
                                           (getNormalized (districtName j)),
               method, False, True)
         else (score, method, False, False))"
    unfolding district_by_similarity_def district_level_def Let_def by auto
qed

text \<open>
  An input record whose three names are scored by similarity: 11/15 at the province
  level (accepted), 2/3 at the city level and 1/2 at the district level (both rejected).
\<close>

theorem similarity_thresholds_witness:
  "province_by_similarity daoli input_names_only
   \<and> city_by_similarity daoli input_names_only
   \<and> district_by_similarity daoli input_names_only
   \<and> province_level daoli input_names_only 0 NoMethod = (11 / 60, Fuzzy, True)
   \<and> city_level daoli input_names_only (11 / 60) Fuzzy = (11 / 60, Fuzzy, False)
   \<and> district_level daoli input_names_only (11 / 60) Fuzzy = (11 / 60, Fuzzy, False, False)"
proof -
  have p: "province_by_similarity daoli input_names_only"
    by (simp add: province_by_similarity_def example_fields normalized_examples)
  have c: "city_by_similarity daoli input_names_only"
    by (simp add: city_by_similarity_def example_fields normalized_examples
        includes_js_def sublist_code)
  have d: "district_by_similarity daoli input_names_only"
    by (simp add: district_by_similarity_def example_fields normalized_examples
        includes_js_def sublist_code strip_level_char_def)
  note t = similarity_thresholds [of daoli input_names_only]
  have "province_level daoli input_names_only 0 NoMethod = (11 / 60, Fuzzy, True)"
    using t [of 0 NoMethod] p by (simp add: example_fields normalized_examples sim_province)
  moreover have "city_level daoli input_names_only (11 / 60) Fuzzy = (11 / 60, Fuzzy, False)"
    using t [of "11 / 60" Fuzzy] c by (simp add: example_fields normalized_examples sim_city)
  moreover have "district_level daoli input_names_only (11 / 60) Fuzzy = (11 / 60, Fuzzy, False, False)"
    using t [of "11 / 60" Fuzzy] d by (simp add: example_fields normalized_examples sim_district)
  ultimately show ?thesis using p c d by simp
qed

text \<open>
  Claim C5 as stated fails at the province level: a name with similarity 11/15, which is
  below 0.8, is accepted and contributes 0.25 * 11/15.
\<close>

theorem province_accepted_below_eight_tenths:
  "province_by_similarity daoli input_short_province
   \<and> similarity (getNormalized (op_provinceName input_short_province))
                 (getNormalized (provinceName daoli)) = 11 / 15
   \<and> (11 / 15 :: rat) < 8 / 10
   \<and> province_level daoli input_short_province 0 NoMethod = (11 / 60, Fuzzy, True)"
  by (simp add: province_by_similarity_def province_level_def example_fields
      normalized_examples sim_province)

text \<open>
  The thresholds belong to the similarity branch only.  At the city level a containment
  between the normalized names is tested before it, and is accepted with a fixed factor
  when the shorter name has at least two characters: the city name that repeats the
  province name is accepted with 0.25 * 0.85, though its similarity to the catalog name
  is 1/2.
\<close>

lemma city_contained_accepted:
  "similarity (getNormalized (op_cityName input_long_city)) (getNormalized (cityName daoli)) = 1 / 2
   \<and> city_level daoli input_long_city (1 / 4) Code = (1 / 4 + 25 / 100 * (85 / 100), Code, True)"
proof -
  have f: "op_cityName input_long_city = [40657, 40857, 27743, 21704, 23572, 28392]"
    "op_cityCode input_long_city = []"
    by (simp_all add: input_long_city_def)
  have n: "getNormalized [40657, 40857, 27743, 21704, 23572, 28392]
             = [40657, 40857, 27743, 21704, 23572, 28392]"
    by (simp add: getNormalized_def norm_eval)
  have s: "similarity [40657, 40857, 27743, 21704, 23572, 28392] [21704, 23572, 28392] = 1 / 2"
    by (simp add: similarity_def norm_eval includes_js_def startsWith_def sublist_code)
  have c: "city_level daoli input_long_city (1 / 4) Code = (1 / 4 + 25 / 100 * (85 / 100), Code, True)"
    by (simp add: city_level_def f n example_fields normalized_examples includes_js_def
        startsWith_def sublist_code)
  from s c show ?thesis by (simp add: f n example_fields normalized_examples)
qed

section \<open>Preference for an exact district match\<close>

lemma reduce_best_step:
  "foldl (\<lambda>prev curr. if mc_score curr > mc_score prev then curr else prev) c cs \<in> set (c # cs)
   \<and> (\<forall>x \<in> set (c # cs).
         mc_score x \<le> mc_score (foldl (\<lambda>prev curr. if mc_score curr > mc_score prev then curr else prev) c cs))"
proof (induction cs arbitrary: c)
  case Nil
  show ?case by simp
next
  case (Cons d ds)
  let ?c' = "if mc_score d > mc_score c then d else c"
  from Cons.IH [of ?c'] show ?case
    by (auto split: if_splits)
qed

lemma reduce_best_in: "reduce_best c cs \<in> set (c # cs)"
  using reduce_best_step [of c cs] unfolding reduce_best_def by blast

lemma reduce_best_max: "x \<in> set (c # cs) \<Longrightarrow> mc_score x \<le> mc_score (reduce_best c cs)"
  using reduce_best_step [of c cs] unfolding reduce_best_def by blast

lemma select_best_exact:
  assumes "\<exists>c \<in> set cands. districtExactMatch c"
  shows "\<exists>best \<in> set cands. districtExactMatch best
           \<and> select_best cands = (Some (mc_input best), mc_score best, mc_method best)
           \<and> (\<forall>c \<in> set cands. districtExactMatch c \<longrightarrow> mc_score c \<le> mc_score best)"
proof -
  from assms have "filter districtExactMatch cands \<noteq> []"
    by (simp add: filter_empty_conv)
  then obtain c cs where f: "filter districtExactMatch cands = c # cs"
    by (cases "filter districtExactMatch cands") auto
  let ?best = "reduce_best c cs"
  have "?best \<in> set (filter districtExactMatch cands)"
    unfolding f by (rule reduce_best_in)
  then have 1: "?best \<in> set cands" "districtExactMatch ?best" by auto
  have 2: "select_best cands = (Some (mc_input ?best), mc_score ?best, mc_method ?best)"
    by (simp add: select_best_def f Let_def)
  have 3: "\<forall>x \<in> set cands. districtExactMatch x \<longrightarrow> mc_score x \<le> mc_score ?best"
  proof (intro ballI impI)
    fix x assume "x \<in> set cands" "districtExactMatch x"
    then have "x \<in> set (c # cs)" unfolding f [symmetric] by simp
    then show "mc_score x \<le> mc_score ?best" by (rule reduce_best_max)
  qed
  from 1 2 3 show ?thesis by blast
qed

lemma select_best_plain:
  assumes "\<forall>c \<in> set cands. \<not> districtExactMatch c" and "cands \<noteq> []"
  shows "\<exists>best \<in> set cands.
           select_best cands = (Some (mc_input best), mc_score best, mc_method best)
           \<and> (\<forall>c \<in> set cands. mc_score c \<le> mc_score best)"
proof -
  from assms(1) have f: "filter districtExactMatch cands = []"
    by (simp add: filter_empty_conv)
  from assms(2) obtain c cs where c: "cands = c # cs" by (cases cands) auto
  let ?best = "reduce_best c cs"
  have 1: "?best \<in> set cands" unfolding c by (rule reduce_best_in)
  have 2: "select_best cands = (Some (mc_input ?best), mc_score ?best, mc_method ?best)"
    using f by (simp add: select_best_def Let_def c)
  have 3: "\<forall>x \<in> set cands. mc_score x \<le> mc_score ?best"
    unfolding c using reduce_best_max by blast
  from 1 2 3 show ?thesis by blast
qed



text \<open>
  Claim C4.  Let \<open>cands\<close> be the candidates of one reference address that score above
  zero.  If some of them have the flag \<open>districtExactMatch\<close> (district matched by code,
  by name, or by normalized name), the record returned is one of those, with the highest
  score among them, whatever the scores of the candidates without the flag.  If none has
  the flag and \<open>cands\<close> is not empty, the record returned is a candidate with the
  highest score of all.
\<close>

theorem exact_district_preferred:
  assumes cands: "cands = score_candidates j candidateInputs"
    and r: "r = matchOperAddressFromJunboOptimized j candidateInputs"
  shows "((\<exists>c \<in> set cands. districtExactMatch c) \<longrightarrow>
            (\<exists>best \<in> set cands. districtExactMatch best
               \<and> matched r = Some (mc_input best) \<and> matchScore r = mc_score best
               \<and> matchMethod r = mc_method best
               \<and> (\<forall>c \<in> set cands. districtExactMatch c \<longrightarrow> mc_score c \<le> mc_score best)))
       \<and> ((\<forall>c \<in> set cands. \<not> districtExactMatch c) \<and> cands \<noteq> [] \<longrightarrow>
            (\<exists>best \<in> set cands.
               matched r = Some (mc_input best) \<and> matchScore r = mc_score best
               \<and> matchMethod r = mc_method best
               \<and> (\<forall>c \<in> set cands. mc_score c \<le> mc_score best)))"
proof (intro conjI impI)
  assume "\<exists>c \<in> set cands. districtExactMatch c"
  from select_best_exact [OF this] obtain best where
    b: "best \<in> set cands" "districtExactMatch best"
       "select_best cands = (Some (mc_input best), mc_score best, mc_method best)"
       "\<forall>c \<in> set cands. districtExactMatch c \<longrightarrow> mc_score c \<le> mc_score best"
    by blast
  from b(3) have "matched r = Some (mc_input best) \<and> matchScore r = mc_score best
                  \<and> matchMethod r = mc_method best"
    unfolding r matchOperAddressFromJunboOptimized_def cands [symmetric] by simp
  with b show "\<exists>best \<in> set cands. districtExactMatch best
               \<and> matched r = Some (mc_input best) \<and> matchScore r = mc_score best
               \<and> matchMethod r = mc_method best
               \<and> (\<forall>c \<in> set cands. districtExactMatch c \<longrightarrow> mc_score c \<le> mc_score best)"
    by blast
next
  assume "(\<forall>c \<in> set cands. \<not> districtExactMatch c) \<and> cands \<noteq> []"
  then have "\<forall>c \<in> set cands. \<not> districtExactMatch c" "cands \<noteq> []" by blast+
  from select_best_plain [OF this] obtain best where
    b: "best \<in> set cands"
       "select_best cands = (Some (mc_input best), mc_score best, mc_method best)"
       "\<forall>c \<in> set cands. mc_score c \<le> mc_score best"
    by blast
  from b(2) have "matched r = Some (mc_input best) \<and> matchScore r = mc_score best
                  \<and> matchMethod r = mc_method best"
    unfolding r matchOperAddressFromJunboOptimized_def cands [symmetric] by simp
  with b show "\<exists>best \<in> set cands.
               matched r = Some (mc_input best) \<and> matchScore r = mc_score best
               \<and> matchMethod r = mc_method best
               \<and> (\<forall>c \<in> set cands. mc_score c \<le> mc_score best)"
    by blast
qed

lemma score_near_district:
  "score_candidate daoli input_near_district
     = \<lparr>sc_score = 39 / 40, sc_method = Code, provinceMatched = True, cityMatched = True,
        sc_districtExactMatch = False, sc_districtFuzzyMatch = True\<rparr>"
  by (simp add: score_candidate_def province_level_def city_level_def district_level_def
      strip_level_char_def includes_js_def sublist_code example_fields normalized_examples)

lemma score_short_province:
  "score_candidate daoli input_short_province
     = \<lparr>sc_score = 14 / 15, sc_method = Fuzzy, provinceMatched = True, cityMatched = True,
        sc_districtExactMatch = True, sc_districtFuzzyMatch = False\<rparr>"
  by (simp add: score_candidate_def province_level_def city_level_def district_level_def
      example_fields normalized_examples sim_province)

lemma candidates_two:
  "score_candidates daoli [(0, input_near_district), (1, input_short_province)]
     = [\<lparr>mc_input = (0, input_near_district), mc_score = 39 / 40, mc_method = Code,
          districtExactMatch = False, districtFuzzyMatch = True\<rparr>,
        \<lparr>mc_input = (1, input_short_province), mc_score = 14 / 15, mc_method = Fuzzy,
          districtExactMatch = True, districtFuzzyMatch = False\<rparr>]"
  by (simp add: score_candidates_def to_candidate_def score_near_district score_short_province)

text \<open>
  Two candidates for the first district of the example catalog: one with the district
  matched by containment only and score 39/40, one with the district matched by code and
  score 14/15.  The second is returned.
\<close>

theorem exact_district_preferred_witness:
  "score_candidates daoli [(0, input_near_district), (1, input_short_province)]
     = [\<lparr>mc_input = (0, input_near_district), mc_score = 39 / 40, mc_method = Code,
          districtExactMatch = False, districtFuzzyMatch = True\<rparr>,
        \<lparr>mc_input = (1, input_short_province), mc_score = 14 / 15, mc_method = Fuzzy,
          districtExactMatch = True, districtFuzzyMatch = False\<rparr>]
   \<and> matched (matchOperAddressFromJunboOptimized daoli
                 [(0, input_near_district), (1, input_short_province)])
       = Some (1, input_short_province)
   \<and> matchScore (matchOperAddressFromJunboOptimized daoli
                    [(0, input_near_district), (1, input_short_province)]) = 14 / 15"
proof -
  let ?cis = "[(0, input_near_district), (1, input_short_province)]"
  let ?r = "matchOperAddressFromJunboOptimized daoli ?cis"
  note t = exact_district_preferred [OF refl refl, of daoli ?cis]
  have ex: "\<exists>c \<in> set (score_candidates daoli ?cis). districtExactMatch c"
    unfolding candidates_two by simp
  with t obtain best where
    b: "best \<in> set (score_candidates daoli ?cis)" "districtExactMatch best"
       "matched ?r = Some (mc_input best)" "matchScore ?r = mc_score best"
    by blast
  from b(1,2) have "best = \<lparr>mc_input = (1, input_short_province), mc_score = 14 / 15,
      mc_method = Fuzzy, districtExactMatch = True, districtFuzzyMatch = False\<rparr>"
    unfolding candidates_two by auto
  with b(3,4) have "matched ?r = Some (1, input_short_province)" "matchScore ?r = 14 / 15"
    by simp_all
  with candidates_two show ?thesis by blast
qed

section \<open>Containment hierarchy\<close>

























end
